theory Spec2Isabelle
  imports Complex_Main
begin

section \<open>WoodenMart checkout: the endpoint of src/main.py over the schemas of src/schemas.py\<close>

text \<open>
  The development embeds \<^verbatim>\<open>checkout\<close> (src/main.py, lines 107-159) together with the
  pydantic models \<^verbatim>\<open>OrderItem\<close> and \<^verbatim>\<open>Order\<close> (src/schemas.py).

  Conventions of the embedding:
  \<^item> a Python exception is the left summand of a result \<open>exn + 'a\<close>;
  \<^item> the document store and the log of calls made to the payment processor are an explicit
    \<open>world\<close> that \<open>checkout\<close> takes and returns;
  \<^item> what the process reads from its surroundings (environment variables, the e-mail
    validator behind \<^verbatim>\<open>EmailStr\<close>, the payment processor, Python's \<^verbatim>\<open>str\<close> on an exception
    object, the identifier the store generates) is a record \<open>env\<close> of parameters;
  \<^item> a Python \<^verbatim>\<open>float\<close> is an IEEE 754 binary64 value, and its arithmetic rounds as CPython's
    does (section on floats below); a Python \<^verbatim>\<open>int\<close> is an \<open>int\<close>;
  \<^item> a JSON object is an association list; the first binding of a key is its value;
  \<^item> the pydantic models \<^verbatim>\<open>OrderItem\<close> and \<^verbatim>\<open>Order\<close> are records, whose fields have the types of
    the schema by construction; the one validation that can fail on such values is that of
    the e-mail;
  \<^item> strings are ASCII, so that the length of a \<open>string\<close> is Python's \<^verbatim>\<open>len\<close>;
  \<^item> the document store is configured (\<^verbatim>\<open>db\<close> is not \<^verbatim>\<open>None\<close>), and writing to it succeeds.
\<close>

subsection \<open>Exceptions\<close>

text \<open>
  \<open>HTTPException\<close> is FastAPI's; \<open>KeyError\<close>, \<open>TypeError\<close>, \<open>ValueError\<close> and \<open>OverflowError\<close>
  are Python's; \<open>InvalidId\<close> is raised by \<^verbatim>\<open>bson.ObjectId\<close>; \<open>ValidationError\<close> by pydantic;
  \<open>ProcessorError\<close> stands for whatever \<^verbatim>\<open>stripe.checkout.Session.create\<close> raises, with an
  uninterpreted payload.
\<close>

datatype exn =
    HTTPException (status_code: nat) (detail: string)
  | KeyError string
  | TypeError
  | ValueError
  | OverflowError
  | InvalidId
  | ValidationError
  | ProcessorError string

subsection \<open>Python's \<^verbatim>\<open>float\<close>\<close>

text \<open>
  A \<^verbatim>\<open>float\<close> is a binary64 value: a finite number, held as the real number it denotes
  (\<open>Finite 0\<close> is \<^verbatim>\<open>0.0\<close>), the negative zero \<^verbatim>\<open>-0.0\<close>, an infinity, or NaN. The float that a
  decimal literal or a JSON number \<open>d\<close> denotes is \<open>round64 d\<close>. The type is wider than the
  floats, which among the values \<open>Finite r\<close> are those with \<open>round64 r = Finite r\<close>; the
  operations round their results, so they take floats to floats, and what holds of every
  \<open>pyfloat\<close> holds of every float.
\<close>

datatype pyfloat = Finite real | NegZero | PosInf | NegInf | NaN

text \<open>\<open>pow2 k\<close> is 2 to the power \<open>k\<close>, for an exponent of either sign.\<close>

definition pow2 :: "int \<Rightarrow> real" where
  "pow2 k = (if 0 \<le> k then 2 ^ nat k else 1 / 2 ^ nat (- k))"

text \<open>Python's \<^verbatim>\<open>int.bit_length\<close> on a non-negative integer.\<close>

function bit_length :: "int \<Rightarrow> nat" where
  "bit_length n = (if n \<le> 0 then 0 else Suc (bit_length (n div 2)))"
  by pat_completeness auto
termination
  by (relation "measure nat") auto

text \<open>
  The binary exponent of a non-zero real \<open>x\<close>: the integer \<open>e\<close> with
  \<open>2 ^ e \<le> \<bar>x\<bar> < 2 ^ (e + 1)\<close>. From 1 on it is the bit length of the integer part, less one;
  below 1 it is read off the reciprocal.
\<close>

definition float_exponent :: "real \<Rightarrow> int" where
  "float_exponent x =
     (let a = \<bar>x\<bar>
      in if 1 \<le> a then int (bit_length \<lfloor>a\<rfloor>) - 1
         else - int (bit_length (\<lceil>1 / a\<rceil> - 1)))"

text \<open>The nearest integer, a tie going to the even neighbour.\<close>

definition round_half_even :: "real \<Rightarrow> int" where
  "round_half_even x =
     (let f = \<lfloor>x\<rfloor>; d = x - of_int f
      in if d < 1 / 2 then f else if 1 / 2 < d then f + 1 else if even f then f else f + 1)"

text \<open>
  Rounding a real to binary64, to nearest with ties to even. A significand has 53 bits, so
  the spacing of the values around \<open>x\<close> is \<open>2 ^ (e - 52)\<close> for the exponent \<open>e\<close> of \<open>x\<close>, which
  is not taken below -1022 (the subnormal range). A magnitude of \<open>2 ^ 1024 - 2 ^ 970\<close> or more,
  half a spacing beyond the largest finite value, rounds to an infinity. A non-zero real that
  rounds to zero keeps its sign.
\<close>

definition overflow_threshold :: real where
  "overflow_threshold = 2 ^ 1024 - 2 ^ 970"

definition round64 :: "real \<Rightarrow> pyfloat" where
  "round64 x =
     (if x = 0 then Finite 0
      else if overflow_threshold \<le> \<bar>x\<bar> then (if 0 < x then PosInf else NegInf)
      else
        let q = pow2 (max (float_exponent x) (- 1022) - 52);
            r = of_int (round_half_even (x / q)) * q
        in if r = 0 then (if x < 0 then NegZero else Finite 0) else Finite r)"

fun is_neg :: "pyfloat \<Rightarrow> bool" where
  "is_neg (Finite r) = (r < 0)"
| "is_neg NegZero = True"
| "is_neg PosInf = False"
| "is_neg NegInf = True"
| "is_neg NaN = False"

fun is_inf :: "pyfloat \<Rightarrow> bool" where
  "is_inf PosInf = True"
| "is_inf NegInf = True"
| "is_inf (Finite r) = False"
| "is_inf NegZero = False"
| "is_inf NaN = False"

fun float_val :: "pyfloat \<Rightarrow> real" where
  "float_val (Finite r) = r"
| "float_val NegZero = 0"
| "float_val PosInf = 0"
| "float_val NegInf = 0"
| "float_val NaN = 0"

definition is_zero :: "pyfloat \<Rightarrow> bool" where
  "is_zero a \<longleftrightarrow> a = Finite 0 \<or> a = NegZero"

text \<open>
  \<^verbatim>\<open>a * b\<close> on floats: NaN is contagious, an infinity times a zero is NaN, an infinity times
  anything else is an infinity whose sign is the product of the signs; on finite operands the
  exact product is rounded, an exact zero taking the product of the signs. No product raises.
\<close>

definition fmul :: "pyfloat \<Rightarrow> pyfloat \<Rightarrow> pyfloat" where
  "fmul a b =
     (if a = NaN \<or> b = NaN then NaN
      else if (is_inf a \<and> is_zero b) \<or> (is_zero a \<and> is_inf b) then NaN
      else if is_inf a \<or> is_inf b then (if is_neg a \<noteq> is_neg b then NegInf else PosInf)
      else
        let p = float_val a * float_val b
        in if p = 0 then (if is_neg a \<noteq> is_neg b then NegZero else Finite 0) else round64 p)"

text \<open>
  \<^verbatim>\<open>a + b\<close> on floats: NaN is contagious, opposite infinities give NaN, an infinity absorbs a
  finite operand; on finite operands the exact sum is rounded, an exact zero being \<^verbatim>\<open>0.0\<close>
  unless both operands are \<^verbatim>\<open>-0.0\<close>. No sum raises.
\<close>

definition fadd :: "pyfloat \<Rightarrow> pyfloat \<Rightarrow> pyfloat" where
  "fadd a b =
     (if a = NaN \<or> b = NaN then NaN
      else if is_inf a \<and> is_inf b then (if a = b then a else NaN)
      else if is_inf a then a
      else if is_inf b then b
      else
        let s = float_val a + float_val b
        in if s = 0 then (if a = NegZero \<and> b = NegZero then NegZero else Finite 0)
           else round64 s)"

text \<open>
  The conversion of an \<^verbatim>\<open>int\<close> operand of a float operation (\<^verbatim>\<open>PyLong_AsDouble\<close>): the
  integer is rounded to binary64, and one that would round to an infinity raises
  \<^verbatim>\<open>OverflowError\<close>.
\<close>

definition in_float_range :: "int \<Rightarrow> bool" where
  "in_float_range n \<longleftrightarrow> \<bar>of_int n\<bar> < overflow_threshold"

definition int_as_float :: "int \<Rightarrow> pyfloat" where
  "int_as_float n = round64 (of_int n)"

definition float_of_int :: "int \<Rightarrow> exn + pyfloat" where
  "float_of_int n = (if in_float_range n then Inr (int_as_float n) else Inl OverflowError)"

text \<open>
  \<^verbatim>\<open>int\<close> of a float truncates towards zero; an infinity raises \<^verbatim>\<open>OverflowError\<close> and NaN
  raises \<^verbatim>\<open>ValueError\<close>.
\<close>

definition trunc :: "real \<Rightarrow> int" where
  "trunc x = (if 0 \<le> x then \<lfloor>x\<rfloor> else \<lceil>x\<rceil>)"

fun int_of_float :: "pyfloat \<Rightarrow> exn + int" where
  "int_of_float (Finite r) = Inr (trunc r)"
| "int_of_float NegZero = Inr 0"
| "int_of_float PosInf = Inl OverflowError"
| "int_of_float NegInf = Inl OverflowError"
| "int_of_float NaN = Inl ValueError"

subsection \<open>Request bodies\<close>

datatype json =
    JNull
  | JBool bool
  | JInt int
  | JFloat pyfloat
  | JStr string
  | JList "json list"
  | JDict "(string \<times> json) list"

type_synonym dict = "(string \<times> json) list"

text \<open>\<^verbatim>\<open>class CheckoutRequest(BaseModel): items: List[dict]; customer_email: str\<close>\<close>

record CheckoutRequest =
  items :: "dict list"
  customer_email :: string

subsection \<open>Dictionary access\<close>

text \<open>\<^verbatim>\<open>it[k]\<close>: raises \<^verbatim>\<open>KeyError\<close> when the key is absent.\<close>

definition getitem :: "dict \<Rightarrow> string \<Rightarrow> exn + json" where
  "getitem it k = (case map_of it k of None \<Rightarrow> Inl (KeyError k) | Some v \<Rightarrow> Inr v)"

text \<open>\<^verbatim>\<open>it.get(k, default)\<close>: the default is used only when the key is absent.\<close>

definition dict_get :: "dict \<Rightarrow> string \<Rightarrow> json \<Rightarrow> json" where
  "dict_get it k d = (case map_of it k of None \<Rightarrow> d | Some v \<Rightarrow> v)"

subsection \<open>Python's \<^verbatim>\<open>int(...)\<close>\<close>

text \<open>
  \<^verbatim>\<open>int\<close> of a string, as CPython 3.11 does it on ASCII: the blanks of C's \<^verbatim>\<open>isspace\<close> (space,
  tab, line feed, vertical tab, form feed, carriage return) are stripped at both ends, one
  sign is allowed, then decimal digits, where single underscores may separate digits; a
  string of more than 4300 digits is refused. Every refusal is a \<^verbatim>\<open>ValueError\<close>.
\<close>

definition is_space :: "char \<Rightarrow> bool" where
  "is_space c \<longleftrightarrow> c \<in> set [CHR '' '', CHR 0x09, CHR 0x0A, CHR 0x0B, CHR 0x0C, CHR 0x0D]"

definition strip :: "string \<Rightarrow> string" where
  "strip s = rev (dropWhile is_space (rev (dropWhile is_space s)))"

definition digit_val :: "char \<Rightarrow> int option" where
  "digit_val c = map_of (zip ''0123456789'' [0, 1, 2, 3, 4, 5, 6, 7, 8, 9]) c"

fun parse_digits :: "int \<Rightarrow> string \<Rightarrow> int option" where
  "parse_digits acc [] = Some acc"
| "parse_digits acc [c] =
     (case digit_val c of None \<Rightarrow> None | Some d \<Rightarrow> Some (acc * 10 + d))"
| "parse_digits acc (c # c' # cs) =
     (case digit_val c of
        None \<Rightarrow> None
      | Some d \<Rightarrow>
          if c' = CHR ''_'' then
            (if cs = [] then None else parse_digits (acc * 10 + d) cs)
          else parse_digits (acc * 10 + d) (c' # cs))"

definition max_str_digits :: nat where
  "max_str_digits = 4300"

definition parse_unsigned :: "string \<Rightarrow> int option" where
  "parse_unsigned s =
     (if s = [] then None
      else if max_str_digits < length (filter (\<lambda>c. digit_val c \<noteq> None) s) then None
      else parse_digits 0 s)"

definition int_of_str :: "string \<Rightarrow> exn + int" where
  "int_of_str s =
     (let t = strip s;
          r = (case t of
                 [] \<Rightarrow> None
               | c # cs \<Rightarrow>
                   if c = CHR ''-'' then map_option uminus (parse_unsigned cs)
                   else if c = CHR ''+'' then parse_unsigned cs
                   else parse_unsigned t)
      in case r of None \<Rightarrow> Inl ValueError | Some n \<Rightarrow> Inr n)"

fun py_int :: "json \<Rightarrow> exn + int" where
  "py_int (JInt n) = Inr n"
| "py_int (JBool b) = Inr (if b then 1 else 0)"
| "py_int (JFloat x) = int_of_float x"
| "py_int (JStr s) = int_of_str s"
| "py_int JNull = Inl TypeError"
| "py_int (JList xs) = Inl TypeError"
| "py_int (JDict kvs) = Inl TypeError"

subsection \<open>\<^verbatim>\<open>bson.ObjectId\<close>\<close>

text \<open>
  \<^verbatim>\<open>ObjectId(oid)\<close> on a string checks that it has 24 characters and hands it to
  \<^verbatim>\<open>bytes.fromhex\<close>, which reads pairs of hexadecimal digits and skips blanks between pairs;
  any other string raises \<^verbatim>\<open>InvalidId\<close>, and a value that is neither a string nor \<^verbatim>\<open>None\<close>
  raises \<^verbatim>\<open>TypeError\<close>. \<^verbatim>\<open>ObjectId(None)\<close> generates a new identifier, which no stored
  document carries: that is \<open>Generated\<close>. \<^verbatim>\<open>str\<close> of an identifier is the lower-case
  hexadecimal form of its bytes, which \<open>OID\<close> holds: 24 digits when the string had no blanks,
  fewer otherwise.
\<close>

datatype objectid = OID string | Generated

definition is_hex :: "char \<Rightarrow> bool" where
  "is_hex c \<longleftrightarrow> c \<in> set ''0123456789abcdefABCDEF''"

definition hex_lower :: "char \<Rightarrow> char" where
  "hex_lower c =
     (case map_of (zip ''ABCDEF'' ''abcdef'') c of None \<Rightarrow> c | Some l \<Rightarrow> l)"

fun fromhex :: "string \<Rightarrow> string option" where
  "fromhex [] = Some []"
| "fromhex [c] = (if is_space c then Some [] else None)"
| "fromhex (c # d # cs) =
     (if is_space c then fromhex (d # cs)
      else if is_hex c \<and> is_hex d then
        map_option (\<lambda>r. hex_lower c # hex_lower d # r) (fromhex cs)
      else None)"

fun ObjectId :: "json \<Rightarrow> exn + objectid" where
  "ObjectId JNull = Inr Generated"
| "ObjectId (JStr s) =
     (if length s = 24 then
        (case fromhex s of None \<Rightarrow> Inl InvalidId | Some h \<Rightarrow> Inr (OID h))
      else Inl InvalidId)"
| "ObjectId (JBool b) = Inl TypeError"
| "ObjectId (JInt n) = Inl TypeError"
| "ObjectId (JFloat x) = Inl TypeError"
| "ObjectId (JList xs) = Inl TypeError"
| "ObjectId (JDict kvs) = Inl TypeError"

subsection \<open>The product collection\<close>

text \<open>
  A document of the collection \<^verbatim>\<open>"product"\<close>, restricted to the keys that \<^verbatim>\<open>checkout\<close> reads:
  \<^verbatim>\<open>"_id"\<close>, \<^verbatim>\<open>"title"\<close>, \<^verbatim>\<open>"price"\<close> and \<^verbatim>\<open>"currency"\<close>. The source reads the last three with
  \<^verbatim>\<open>prod.get(key, default)\<close>, so each may be absent. Values have the types of the schema
  \<^verbatim>\<open>Product\<close> (\<^verbatim>\<open>title: str\<close>, \<^verbatim>\<open>price: float\<close>, \<^verbatim>\<open>currency: str\<close>).
\<close>

record product =
  prod_id :: string
  prod_title :: "string option"
  prod_price :: "pyfloat option"
  prod_currency :: "string option"

text \<open>\<^verbatim>\<open>prod.get(key, default)\<close> on one of the three optional keys.\<close>

definition prod_get :: "'a option \<Rightarrow> 'a \<Rightarrow> 'a" where
  "prod_get field d = (case field of None \<Rightarrow> d | Some v \<Rightarrow> v)"

text \<open>
  \<^verbatim>\<open>db["product"].find_one({"_id": oid})\<close>: the first document with that identifier.
  \<open>prod_id\<close> holds \<^verbatim>\<open>str(prod["_id"])\<close>, the lower-case hexadecimal form of the stored identifier.
\<close>

fun find_one :: "product list \<Rightarrow> objectid \<Rightarrow> product option" where
  "find_one ps Generated = None"
| "find_one ps (OID s) = find (\<lambda>p. prod_id p = s) ps"

subsection \<open>The schemas \<^verbatim>\<open>OrderItem\<close> and \<^verbatim>\<open>Order\<close>\<close>

record OrderItem =
  product_id :: string
  title :: string
  unit_price :: pyfloat
  quantity :: int
  subtotal :: pyfloat

record Order =
  user_email :: string
  items :: "OrderItem list"
  total :: pyfloat
  currency :: string
  status :: string
  payment_intent_id :: "string option"

subsection \<open>The request sent to the payment processor\<close>

text \<open>
  The dictionaries of lines 141-149 and the keyword arguments of
  \<^verbatim>\<open>stripe.checkout.Session.create\<close> (lines 150-156).
\<close>

record product_data =
  name :: string

record price_data =
  pd_currency :: string
  pd_product_data :: product_data
  unit_amount :: int

record line_item =
  li_price_data :: price_data
  li_quantity :: int

record session_params =
  mode :: string
  line_items :: "line_item list"
  success_url :: string
  cancel_url :: string
  sp_customer_email :: string

subsection \<open>Surroundings and state\<close>

text \<open>
  \<open>STRIPE_SECRET\<close>: the module constant of line 22. \<open>FRONTEND_URL\<close>: the environment variable,
  when set. \<open>EmailStr\<close>: pydantic's validation of an \<^verbatim>\<open>EmailStr\<close> field, giving the normalised
  address or nothing when the string is rejected. \<open>Session_create\<close>: the payment processor,
  returning \<^verbatim>\<open>session.url\<close> or raising. \<open>exc_str\<close>: Python's \<^verbatim>\<open>str(e)\<close> on an exception.
  \<open>inserted_id\<close>: the identifier the store gives to a new order, from the orders it holds.
\<close>

record env =
  STRIPE_SECRET :: string
  FRONTEND_URL :: "string option"
  EmailStr :: "string \<Rightarrow> string option"
  Session_create :: "session_params \<Rightarrow> exn + string"
  exc_str :: "exn \<Rightarrow> string"
  inserted_id :: "(string \<times> Order) list \<Rightarrow> string"

record world =
  products :: "product list"
  orders :: "(string \<times> Order) list"
  sessions :: "session_params list"

text \<open>
  Modelled from the spec: \<^verbatim>\<open>database.create_document\<close>, which src/main.py imports from a
  module that is not among the sources. The spec gives the store the contract
  \<^verbatim>\<open>insert(collection, record) -> generated_id\<close>; \<^verbatim>\<open>checkout\<close> calls it on the collection
  \<^verbatim>\<open>"order"\<close> only, so the model appends the record to the orders and returns its identifier.
\<close>

definition create_document :: "env \<Rightarrow> Order \<Rightarrow> world \<Rightarrow> string \<times> world" where
  "create_document e ord w =
     (let oid = inserted_id e (orders w)
      in (oid, w\<lparr>orders := orders w @ [(oid, ord)]\<rparr>))"

text \<open>
  \<^verbatim>\<open>Order(user_email=..., items=..., total=...)\<close>: the e-mail is validated, the fields that are
  not passed take the defaults of the schema (lines 39-41 of src/schemas.py).
\<close>

definition Order_init :: "env \<Rightarrow> string \<Rightarrow> OrderItem list \<Rightarrow> pyfloat \<Rightarrow> exn + Order" where
  "Order_init e email its tot =
     (case EmailStr e email of
        None \<Rightarrow> Inl ValidationError
      | Some addr \<Rightarrow>
          Inr \<lparr>user_email = addr, items = its, total = tot, currency = ''inr'',
               status = ''pending'', payment_intent_id = None\<rparr>)"

text \<open>\<^verbatim>\<open>os.getenv("FRONTEND_URL", "http://localhost:3000")\<close>\<close>

definition frontend_url :: "env \<Rightarrow> string" where
  "frontend_url e = (case FRONTEND_URL e of None \<Rightarrow> ''http://localhost:3000'' | Some u \<Rightarrow> u)"

subsection \<open>The simulated path (lines 109-131)\<close>

text \<open>
  The body of the loop of lines 114-128, for one cart line. \<^verbatim>\<open>float(prod.get("price", 0))\<close> is
  the stored price, or \<^verbatim>\<open>0.0\<close>. In \<^verbatim>\<open>unit_price * qty\<close> the integer is first converted to a float,
  which raises \<^verbatim>\<open>OverflowError\<close> when it is out of range; the product is then a float product.
\<close>

definition simulated_line :: "product list \<Rightarrow> dict \<Rightarrow> exn + OrderItem" where
  "simulated_line ps it =
     (case getitem it ''product_id'' of
        Inl x \<Rightarrow> Inl x
      | Inr v \<Rightarrow>
     (case ObjectId v of
        Inl x \<Rightarrow> Inl x
      | Inr oid \<Rightarrow>
     (case find_one ps oid of
        None \<Rightarrow> Inl (HTTPException 404 ''Product not found'')
      | Some doc \<Rightarrow>
     (case py_int (dict_get it ''quantity'' (JInt 1)) of
        Inl x \<Rightarrow> Inl x
      | Inr qty \<Rightarrow>
          let price = prod_get (prod_price doc) (Finite 0)
          in (case float_of_int qty of
                Inl x \<Rightarrow> Inl x
              | Inr fq \<Rightarrow>
                  let sub = fmul price fq
                  in Inr \<lparr>product_id = prod_id doc,
                          title = prod_get (prod_title doc) '''',
                          unit_price = price,
                          quantity = qty,
                          subtotal = sub\<rparr>)))))"

text \<open>
  The loop, with the accumulators \<^verbatim>\<open>items\<close> and \<^verbatim>\<open>total\<close>. \<^verbatim>\<open>total\<close> starts as the integer 0,
  which the first \<^verbatim>\<open>total += subtotal\<close> converts to \<^verbatim>\<open>0.0\<close> (as the \<^verbatim>\<open>Order\<close> schema does when the
  cart is empty); every addition is a float addition.
\<close>

fun simulated_loop ::
  "product list \<Rightarrow> dict list \<Rightarrow> OrderItem list \<Rightarrow> pyfloat \<Rightarrow> exn + (OrderItem list \<times> pyfloat)" where
  "simulated_loop ps [] its tot = Inr (its, tot)"
| "simulated_loop ps (it # rest) its tot =
     (case simulated_line ps it of
        Inl x \<Rightarrow> Inl x
      | Inr oi \<Rightarrow> simulated_loop ps rest (its @ [oi]) (fadd tot (subtotal oi)))"

subsection \<open>The real path (lines 134-159)\<close>

text \<open>
  The body of the loop of lines 136-149, for one cart line. In
  \<^verbatim>\<open>int(float(prod.get("price", 0)) * 100)\<close> the integer 100 is the float \<^verbatim>\<open>100.0\<close>, the product is a
  float product, and \<^verbatim>\<open>int\<close> truncates it, raising on an infinity or NaN.
\<close>

definition real_line :: "product list \<Rightarrow> dict \<Rightarrow> exn + line_item" where
  "real_line ps it =
     (case getitem it ''product_id'' of
        Inl x \<Rightarrow> Inl x
      | Inr v \<Rightarrow>
     (case ObjectId v of
        Inl x \<Rightarrow> Inl x
      | Inr oid \<Rightarrow>
     (case find_one ps oid of
        None \<Rightarrow> Inl (HTTPException 404 ''Product not found'')
      | Some doc \<Rightarrow>
     (case py_int (dict_get it ''quantity'' (JInt 1)) of
        Inl x \<Rightarrow> Inl x
      | Inr qty \<Rightarrow>
     (case int_of_float (fmul (prod_get (prod_price doc) (Finite 0)) (Finite 100)) of
        Inl x \<Rightarrow> Inl x
      | Inr amount \<Rightarrow>
          Inr \<lparr>li_price_data =
                 \<lparr>pd_currency = prod_get (prod_currency doc) ''inr'',
                  pd_product_data = \<lparr>name = prod_get (prod_title doc) ''Item''\<rparr>,
                  unit_amount = amount\<rparr>,
               li_quantity = qty\<rparr>)))))"

fun real_loop :: "product list \<Rightarrow> dict list \<Rightarrow> line_item list \<Rightarrow> exn + line_item list" where
  "real_loop ps [] lis = Inr lis"
| "real_loop ps (it # rest) lis =
     (case real_line ps it of
        Inl x \<Rightarrow> Inl x
      | Inr li \<Rightarrow> real_loop ps rest (lis @ [li]))"

datatype response =
    SimulatedResponse (success: bool) (order_id: string) (payment_simulated: bool)
  | UrlResponse (url: string)

text \<open>
  The body of the \<^verbatim>\<open>try\<close> block. The call to the processor is recorded in \<open>sessions\<close>
  whether or not the processor accepts it.
\<close>

definition real_try :: "env \<Rightarrow> CheckoutRequest \<Rightarrow> world \<Rightarrow> (exn + response) \<times> world" where
  "real_try e req w =
     (case real_loop (products w) (CheckoutRequest.items req) [] of
        Inl x \<Rightarrow> (Inl x, w)
      | Inr lis \<Rightarrow>
          let params = \<lparr>mode = ''payment'',
                        line_items = lis,
                        success_url = frontend_url e @ ''/checkout/success'',
                        cancel_url = frontend_url e @ ''/checkout/cancel'',
                        sp_customer_email = customer_email req\<rparr>;
              w' = w\<lparr>sessions := sessions w @ [params]\<rparr>
          in (case Session_create e params of
                Inl x \<Rightarrow> (Inl x, w')
              | Inr u \<Rightarrow> (Inr (UrlResponse u), w')))"

subsection \<open>The endpoint\<close>

text \<open>
  \<^verbatim>\<open>except Exception as e: raise HTTPException(status_code=400, detail=str(e))\<close> catches every
  exception of the \<^verbatim>\<open>try\<close> block, the \<^verbatim>\<open>HTTPException\<close> of line 139 included.
\<close>

definition checkout :: "env \<Rightarrow> CheckoutRequest \<Rightarrow> world \<Rightarrow> (exn + response) \<times> world" where
  "checkout e req w =
     (if STRIPE_SECRET e = [] then
        (case simulated_loop (products w) (CheckoutRequest.items req) [] (Finite 0) of
           Inl x \<Rightarrow> (Inl x, w)
         | Inr (its, tot) \<Rightarrow>
             (case Order_init e (customer_email req) its tot of
                Inl x \<Rightarrow> (Inl x, w)
              | Inr ord \<Rightarrow>
                  let (oid, w') = create_document e ord w
                  in (Inr (SimulatedResponse True oid True), w')))
      else
        (case real_try e req w of
           (Inl x, w') \<Rightarrow> (Inl (HTTPException 400 (exc_str e x)), w')
         | (Inr r, w') \<Rightarrow> (Inr r, w')))"

subsection \<open>Vocabulary of the specification\<close>

text \<open>
  A cart line resolves to the catalog document \<open>doc\<close> with quantity \<open>q\<close>: its product
  reference is a well-formed identifier that Catalog Lookup finds, and its quantity (1 when
  the key is absent) converts to the integer \<open>q\<close>.
\<close>

definition resolves :: "product list \<Rightarrow> dict \<Rightarrow> product \<Rightarrow> int \<Rightarrow> bool" where
  "resolves ps it doc q \<longleftrightarrow>
     (case getitem it ''product_id'' of
        Inl x \<Rightarrow> False
      | Inr v \<Rightarrow>
          (case ObjectId v of
             Inl x \<Rightarrow> False
           | Inr oid \<Rightarrow> find_one ps oid = Some doc))
     \<and> py_int (dict_get it ''quantity'' (JInt 1)) = Inr q"

text \<open>
  A cart line can be priced: it resolves, and its quantity is within the range of a float, so
  that unit price times quantity exists.
\<close>

definition priced :: "product list \<Rightarrow> dict \<Rightarrow> product \<Rightarrow> int \<Rightarrow> bool" where
  "priced ps it doc q \<longleftrightarrow> resolves ps it doc q \<and> in_float_range q"

text \<open>
  The line item of a priced cart line: identifier, title and unit price as the catalog has
  them, the quantity of the line, and the float product of unit price and quantity.
\<close>

definition snapshot :: "product \<Rightarrow> int \<Rightarrow> OrderItem" where
  "snapshot doc q =
     \<lparr>product_id = prod_id doc, title = prod_get (prod_title doc) '''',
      unit_price = prod_get (prod_price doc) (Finite 0), quantity = q,
      subtotal = fmul (prod_get (prod_price doc) (Finite 0)) (int_as_float q)\<rparr>"

text \<open>
  A cart line is unresolvable: its product reference is a well-formed identifier and Catalog
  Lookup finds no document for it (the NotFound of the specification).
\<close>

definition unresolvable :: "product list \<Rightarrow> dict \<Rightarrow> bool" where
  "unresolvable ps it \<longleftrightarrow>
     (case getitem it ''product_id'' of
        Inl x \<Rightarrow> False
      | Inr v \<Rightarrow>
          (case ObjectId v of
             Inl x \<Rightarrow> False
           | Inr oid \<Rightarrow> find_one ps oid = None))"

text \<open>
  The rounding the specification names for the minor-unit amount: Python's \<^verbatim>\<open>round\<close> of a
  float, to the nearest integer, a tie going to the even neighbour.
\<close>

fun py_round :: "pyfloat \<Rightarrow> exn + int" where
  "py_round (Finite r) = Inr (round_half_even r)"
| "py_round NegZero = Inr 0"
| "py_round PosInf = Inl OverflowError"
| "py_round NegInf = Inl OverflowError"
| "py_round NaN = Inl ValueError"

subsection \<open>A concrete shop\<close>

text \<open>
  The example of the specification: a product \<open>A\<close> of price 100.0, and a cart holding two of
  it. Product \<open>B\<close> has the price 1.0078125 = 129/128 and no currency; product \<open>C\<close> has the
  price 19.99, that is, the float nearest to 1999/100.
\<close>

definition product_A :: product where
  "product_A = \<lparr>prod_id = ''64b7f0c2a1d3e4f5a6b7c8d9'', prod_title = Some ''Oak table'',
                 prod_price = Some (Finite 100), prod_currency = Some ''usd''\<rparr>"

definition product_B :: product where
  "product_B = \<lparr>prod_id = ''64b7f0c2a1d3e4f5a6b7c8da'', prod_title = Some ''Peg'',
                 prod_price = Some (Finite (129 / 128)), prod_currency = None\<rparr>"

definition product_C :: product where
  "product_C = \<lparr>prod_id = ''64b7f0c2a1d3e4f5a6b7c8db'', prod_title = Some ''Stool'',
                 prod_price = Some (round64 (1999 / 100)), prod_currency = Some ''inr''\<rparr>"

definition shop :: world where
  "shop = \<lparr>products = [product_A, product_B, product_C], orders = [], sessions = []\<rparr>"

definition line_A2 :: dict where
  "line_A2 = [(''product_id'', JStr ''64b7f0c2a1d3e4f5a6b7c8d9''), (''quantity'', JInt 2)]"

definition line_A2_priced :: dict where
  "line_A2_priced =
     [(''product_id'', JStr ''64b7f0c2a1d3e4f5a6b7c8d9''), (''price'', JFloat (Finite 1)),
      (''quantity'', JInt 2), (''unit_price'', JInt 0)]"

definition line_A_returned :: dict where
  "line_A_returned = [(''product_id'', JStr ''64b7f0c2a1d3e4f5a6b7c8d9''), (''quantity'', JInt (- 3))]"

definition line_A_huge :: dict where
  "line_A_huge =
     [(''product_id'', JStr ''64b7f0c2a1d3e4f5a6b7c8d9''), (''quantity'', JInt (- (10 ^ 400)))]"

definition line_B :: dict where
  "line_B = [(''product_id'', JStr ''64B7F0C2A1D3E4F5A6B7C8DA'')]"

definition line_C :: dict where
  "line_C = [(''product_id'', JStr ''64b7f0c2a1d3e4f5a6b7c8db''), (''quantity'', JInt 1)]"

definition line_missing :: dict where
  "line_missing = [(''product_id'', JStr ''000000000000000000000000''), (''quantity'', JInt 1)]"

text \<open>
  The surroundings: an e-mail validator that accepts the strings containing \<^verbatim>\<open>@\<close>, a
  processor that accepts every request that has a line and rejects the others.
\<close>

definition simulated_env :: env where
  "simulated_env =
     \<lparr>STRIPE_SECRET = '''', FRONTEND_URL = None,
      EmailStr = (\<lambda>s. if CHR ''@'' \<in> set s then Some s else None),
      Session_create = (\<lambda>p. if line_items p = [] then Inl (ProcessorError ''no line items'')
                              else Inr ''https://pay.example/session''),
      exc_str = (\<lambda>x. case x of ProcessorError m \<Rightarrow> m | _ \<Rightarrow> ''error''),
      inserted_id = (\<lambda>os. ''order-'' @ replicate (Suc (length os)) CHR ''i'')\<rparr>"

definition real_env :: env where
  "real_env = simulated_env\<lparr>STRIPE_SECRET := ''sk_test''\<rparr>"

definition request :: "dict list \<Rightarrow> CheckoutRequest" where
  "request its = \<lparr>CheckoutRequest.items = its, customer_email = ''ann@example.org''\<rparr>"

section \<open>Properties\<close>

subsection \<open>Evaluating floats\<close>

declare bit_length.simps [simp del]

lemma bit_length_numeral [simp]:
  "bit_length 0 = 0"
  "bit_length 1 = Suc 0"
  "bit_length (numeral k) = Suc (bit_length (numeral k div 2))"
  by (simp_all add: bit_length.simps [of 0] bit_length.simps [of 1]
      bit_length.simps [of "numeral k"])

lemmas float_defs =
  round64_def float_exponent_def round_half_even_def pow2_def overflow_threshold_def
  fmul_def fadd_def is_zero_def in_float_range_def int_as_float_def float_of_int_def

lemma int_as_float_small:
  "int_as_float 1 = Finite 1" "int_as_float 2 = Finite 2" "int_as_float (- 3) = Finite (- 3)"
  by (simp_all add: float_defs)

lemma in_float_range_small:
  "in_float_range 1" "in_float_range 2" "in_float_range (- 3)"
  by (simp_all add: float_defs)

lemma not_in_float_range_huge: "\<not> in_float_range (- (10 ^ 400))"
  by (simp add: float_defs)

lemma fmul_100_2: "fmul (Finite 100) (Finite 2) = Finite 200"
  by (simp add: float_defs)

lemma fmul_100_neg3: "fmul (Finite 100) (Finite (- 3)) = Finite (- 300)"
  by (simp add: float_defs)

lemma fmul_B_1: "fmul (Finite (129 / 128)) (Finite 1) = Finite (129 / 128)"
  by (simp add: float_defs)

lemma fadd_0_200: "fadd (Finite 0) (Finite 200) = Finite 200"
  by (simp add: float_defs)

lemma fadd_0_neg300: "fadd (Finite 0) (Finite (- 300)) = Finite (- 300)"
  by (simp add: float_defs)

lemma fadd_200_B: "fadd (Finite 200) (Finite (129 / 128)) = Finite (25729 / 128)"
  by (simp add: float_defs)

lemma fmul_100_100: "fmul (Finite 100) (Finite 100) = Finite 10000"
  by (simp add: float_defs)

lemma fmul_B_100: "fmul (Finite (129 / 128)) (Finite 100) = Finite (3225 / 32)"
  by (simp add: float_defs)

text \<open>The float 19.99, and the float product 19.99 * 100 = 1998.9999999999998.\<close>

lemma float_19_99: "round64 (1999 / 100) = Finite (5626684784446013 / 281474976710656)"
  by (simp add: float_defs)

lemma fmul_19_99_100:
  "fmul (Finite (5626684784446013 / 281474976710656)) (Finite 100) =
     Finite (8791694975696895 / 4398046511104)"
  by (simp add: float_defs)

lemma trunc_19_99_100: "trunc (8791694975696895 / 4398046511104) = 1998"
  by (simp add: trunc_def)

lemma round_19_99_100: "round_half_even (8791694975696895 / 4398046511104) = 1999"
  by (simp add: round_half_even_def)

subsection \<open>One cart line\<close>

lemma priced_simulated_line:
  "priced ps it doc q \<Longrightarrow> simulated_line ps it = Inr (snapshot doc q)"
  by (auto simp: priced_def resolves_def simulated_line_def snapshot_def float_of_int_def Let_def
      split: sum.splits)

lemma simulated_line_priced:
  "simulated_line ps it = Inr oi \<Longrightarrow> \<exists>doc q. priced ps it doc q \<and> oi = snapshot doc q"
  by (auto simp: priced_def resolves_def simulated_line_def snapshot_def float_of_int_def Let_def
      split: sum.splits option.splits if_splits)

text \<open>A line that resolves with a quantity beyond the range of a float stops the simulated path.\<close>

lemma resolves_out_of_range:
  "resolves ps it doc q \<Longrightarrow> \<not> in_float_range q \<Longrightarrow> simulated_line ps it = Inl OverflowError"
  by (auto simp: resolves_def simulated_line_def float_of_int_def Let_def split: sum.splits)

lemma resolves_real_line:
  "resolves ps it doc q \<Longrightarrow>
   int_of_float (fmul (prod_get (prod_price doc) (Finite 0)) (Finite 100)) = Inr amount \<Longrightarrow>
   real_line ps it =
     Inr \<lparr>li_price_data =
            \<lparr>pd_currency = prod_get (prod_currency doc) ''inr'',
             pd_product_data = \<lparr>name = prod_get (prod_title doc) ''Item''\<rparr>,
             unit_amount = amount\<rparr>,
          li_quantity = q\<rparr>"
  by (auto simp: resolves_def real_line_def split: sum.splits)

lemma real_line_resolves:
  "real_line ps it = Inr li \<Longrightarrow>
   \<exists>doc q. resolves ps it doc q
     \<and> int_of_float (fmul (prod_get (prod_price doc) (Finite 0)) (Finite 100)) =
         Inr (unit_amount (li_price_data li))
     \<and> li_quantity li = q"
  by (auto simp: resolves_def real_line_def split: sum.splits option.splits)

lemma unresolvable_simulated_line:
  "unresolvable ps it \<Longrightarrow> simulated_line ps it = Inl (HTTPException 404 ''Product not found'')"
  by (auto simp: unresolvable_def simulated_line_def split: sum.splits)

lemma unresolvable_real_line:
  "unresolvable ps it \<Longrightarrow> real_line ps it = Inl (HTTPException 404 ''Product not found'')"
  by (auto simp: unresolvable_def real_line_def split: sum.splits)

subsection \<open>The two loops\<close>

lemma simulated_loop_fail:
  "it \<in> set xs \<Longrightarrow> simulated_line ps it = Inl x \<Longrightarrow> \<exists>x'. simulated_loop ps xs its tot = Inl x'"
  by (induction xs arbitrary: its tot) (auto split: sum.splits)

lemma real_loop_fail:
  "it \<in> set xs \<Longrightarrow> real_line ps it = Inl x \<Longrightarrow> \<exists>x'. real_loop ps xs lis = Inl x'"
  by (induction xs arbitrary: lis) (auto split: sum.splits)

lemma simulated_loop_ok:
  "list_all2 (\<lambda>it oi. simulated_line ps it = Inr oi) xs ois \<Longrightarrow>
   simulated_loop ps xs its tot = Inr (its @ ois, foldl fadd tot (map subtotal ois))"
  by (induction xs ois arbitrary: its tot rule: list_all2_induct) auto

lemma real_loop_ok:
  "list_all2 (\<lambda>it li. real_line ps it = Inr li) xs ls \<Longrightarrow> real_loop ps xs lis = Inr (lis @ ls)"
  by (induction xs ls arbitrary: lis rule: list_all2_induct) auto

lemma simulated_loop_Inr:
  "simulated_loop ps xs its tot = Inr (its', tot') \<Longrightarrow>
   \<exists>ois. list_all2 (\<lambda>it oi. simulated_line ps it = Inr oi) xs ois \<and> its' = its @ ois
       \<and> tot' = foldl fadd tot (map subtotal ois)"
proof (induction xs arbitrary: its tot)
  case Nil
  then show ?case by simp
next
  case (Cons it rest)
  then obtain oi where oi: "simulated_line ps it = Inr oi"
    and rest: "simulated_loop ps rest (its @ [oi]) (fadd tot (subtotal oi)) = Inr (its', tot')"
    by (auto split: sum.splits)
  from Cons.IH [OF rest] obtain ois where
    "list_all2 (\<lambda>it oi. simulated_line ps it = Inr oi) rest ois"
    "its' = (its @ [oi]) @ ois" "tot' = foldl fadd (fadd tot (subtotal oi)) (map subtotal ois)"
    by blast
  with oi show ?case
    by (intro exI [of _ "oi # ois"]) simp
qed

lemma real_loop_Inr:
  "real_loop ps xs lis = Inr lis' \<Longrightarrow>
   \<exists>ls. list_all2 (\<lambda>it li. real_line ps it = Inr li) xs ls \<and> lis' = lis @ ls"
proof (induction xs arbitrary: lis)
  case Nil
  then show ?case by simp
next
  case (Cons it rest)
  then obtain li where li: "real_line ps it = Inr li"
    and rest: "real_loop ps rest (lis @ [li]) = Inr lis'"
    by (auto split: sum.splits)
  from Cons.IH [OF rest] obtain ls where
    "list_all2 (\<lambda>it li. real_line ps it = Inr li) rest ls" "lis' = (lis @ [li]) @ ls"
    by blast
  with li show ?case
    by (intro exI [of _ "li # ls"]) simp
qed

lemma priced_lines_simulated:
  "list_all2 (\<lambda>it (doc, q). priced ps it doc q) xs lines \<Longrightarrow>
   list_all2 (\<lambda>it oi. simulated_line ps it = Inr oi) xs (map (\<lambda>(doc, q). snapshot doc q) lines)"
  by (induction xs lines rule: list_all2_induct) (auto simp: priced_simulated_line)

subsection \<open>The simulated path as a whole\<close>

lemma checkout_simulated_ok:
  assumes "STRIPE_SECRET e = []"
    and "list_all2 (\<lambda>it (doc, q). priced (products w) it doc q) (CheckoutRequest.items req) lines"
    and "EmailStr e (customer_email req) = Some addr"
  shows "checkout e req w =
     (Inr (SimulatedResponse True (inserted_id e (orders w)) True),
      w\<lparr>orders := orders w @
         [(inserted_id e (orders w),
           \<lparr>user_email = addr, items = map (\<lambda>(doc, q). snapshot doc q) lines,
            total = foldl fadd (Finite 0) (map subtotal (map (\<lambda>(doc, q). snapshot doc q) lines)),
            currency = ''inr'', status = ''pending'', payment_intent_id = None\<rparr>)]\<rparr>)"
  using assms(1,3) simulated_loop_ok [OF priced_lines_simulated [OF assms(2)], of "[]" "Finite 0"]
  by (simp add: checkout_def Order_init_def create_document_def Let_def)

lemma checkout_simulated_cases:
  assumes "STRIPE_SECRET e = []"
  shows "(\<exists>x. checkout e req w = (Inl x, w)) \<or>
     (\<exists>ord. checkout e req w =
        (Inr (SimulatedResponse True (inserted_id e (orders w)) True),
         w\<lparr>orders := orders w @ [(inserted_id e (orders w), ord)]\<rparr>)
        \<and> currency ord = ''inr'' \<and> status ord = ''pending'')"
  using assms
  by (auto simp: checkout_def Order_init_def create_document_def Let_def split: sum.splits option.splits)

text \<open>
  A simulated checkout that succeeds persists one order, whose items are the results of the
  loop body on the lines of the cart, in order, and whose total is their accumulated subtotal.
\<close>

lemma checkout_simulated_Inr:
  assumes "STRIPE_SECRET e = []"
    and "checkout e req w = (Inr r, w')"
  shows "\<exists>oid ord. r = SimulatedResponse True oid True
    \<and> w' = w\<lparr>orders := orders w @ [(oid, ord)]\<rparr>
    \<and> list_all2 (\<lambda>it oi. simulated_line (products w) it = Inr oi)
         (CheckoutRequest.items req) (items ord)
    \<and> total ord = foldl fadd (Finite 0) (map subtotal (items ord))"
proof -
  from assms obtain its tot where
    loop: "simulated_loop (products w) (CheckoutRequest.items req) [] (Finite 0) = Inr (its, tot)"
    by (auto simp: checkout_def split: sum.splits)
  from assms loop obtain ord where
    ord: "Order_init e (customer_email req) its tot = Inr ord"
    by (auto simp: checkout_def split: sum.splits)
  from assms loop ord have run: "r = SimulatedResponse True (inserted_id e (orders w)) True"
    "w' = w\<lparr>orders := orders w @ [(inserted_id e (orders w), ord)]\<rparr>"
    by (auto simp: checkout_def create_document_def Let_def)
  from ord have fields: "items ord = its" "total ord = tot"
    by (auto simp: Order_init_def split: option.splits)
  from simulated_loop_Inr [OF loop] have
    "list_all2 (\<lambda>it oi. simulated_line (products w) it = Inr oi) (CheckoutRequest.items req) its"
    "tot = foldl fadd (Finite 0) (map subtotal its)"
    by auto
  with run fields show ?thesis
    by (intro exI [of _ "inserted_id e (orders w)"] exI [of _ ord]) simp
qed

subsection \<open>The concrete shop, evaluated\<close>

lemmas shop_defs =
  shop_def product_A_def product_B_def product_C_def getitem_def dict_get_def is_hex_def
  hex_lower_def is_space_def

lemma resolves_A2: "resolves (products shop) line_A2 product_A 2"
  by (simp add: resolves_def line_A2_def shop_defs)

lemma resolves_A_returned: "resolves (products shop) line_A_returned product_A (- 3)"
  by (simp add: resolves_def line_A_returned_def shop_defs)

lemma resolves_A_huge: "resolves (products shop) line_A_huge product_A (- (10 ^ 400))"
  by (simp add: resolves_def line_A_huge_def shop_defs)

lemma resolves_B: "resolves (products shop) line_B product_B 1"
  by (simp add: resolves_def line_B_def shop_defs)

lemma resolves_C: "resolves (products shop) line_C product_C 1"
  by (simp add: resolves_def line_C_def shop_defs)

lemma priced_A2: "priced (products shop) line_A2 product_A 2"
  by (simp add: priced_def resolves_A2 in_float_range_small)

lemma priced_A_returned: "priced (products shop) line_A_returned product_A (- 3)"
  by (simp add: priced_def resolves_A_returned in_float_range_small)

lemma priced_B: "priced (products shop) line_B product_B 1"
  by (simp add: priced_def resolves_B in_float_range_small)

lemma unresolvable_missing: "unresolvable (products shop) line_missing"
  by (simp add: unresolvable_def line_missing_def shop_defs)

lemma snapshot_A2:
  "snapshot product_A 2 =
     \<lparr>product_id = ''64b7f0c2a1d3e4f5a6b7c8d9'', title = ''Oak table'', unit_price = Finite 100,
      quantity = 2, subtotal = Finite 200\<rparr>"
  by (simp add: snapshot_def product_A_def prod_get_def int_as_float_small fmul_100_2)

lemma snapshot_A_returned:
  "snapshot product_A (- 3) =
     \<lparr>product_id = ''64b7f0c2a1d3e4f5a6b7c8d9'', title = ''Oak table'', unit_price = Finite 100,
      quantity = - 3, subtotal = Finite (- 300)\<rparr>"
  by (simp add: snapshot_def product_A_def prod_get_def int_as_float_small fmul_100_neg3)

lemma snapshot_B:
  "snapshot product_B 1 =
     \<lparr>product_id = ''64b7f0c2a1d3e4f5a6b7c8da'', title = ''Peg'', unit_price = Finite (129 / 128),
      quantity = 1, subtotal = Finite (129 / 128)\<rparr>"
  by (simp add: snapshot_def product_B_def prod_get_def int_as_float_small fmul_B_1)

lemma real_line_A2:
  "real_line (products shop) line_A2 =
     Inr \<lparr>li_price_data =
            \<lparr>pd_currency = ''usd'', pd_product_data = \<lparr>name = ''Oak table''\<rparr>,
             unit_amount = 10000\<rparr>,
          li_quantity = 2\<rparr>"
  using resolves_real_line [OF resolves_A2, of 10000]
  by (simp add: product_A_def prod_get_def fmul_100_100 trunc_def)

lemma real_line_B:
  "real_line (products shop) line_B =
     Inr \<lparr>li_price_data =
            \<lparr>pd_currency = ''inr'', pd_product_data = \<lparr>name = ''Peg''\<rparr>,
             unit_amount = 100\<rparr>,
          li_quantity = 1\<rparr>"
  using resolves_real_line [OF resolves_B, of 100]
  by (simp add: product_B_def prod_get_def fmul_B_100 trunc_def)

lemma real_line_C:
  "real_line (products shop) line_C =
     Inr \<lparr>li_price_data =
            \<lparr>pd_currency = ''inr'', pd_product_data = \<lparr>name = ''Stool''\<rparr>,
             unit_amount = 1998\<rparr>,
          li_quantity = 1\<rparr>"
  using resolves_real_line [OF resolves_C, of 1998]
  by (simp add: product_C_def prod_get_def float_19_99 fmul_19_99_100 trunc_19_99_100)

lemma simulated_env_simps:
  "STRIPE_SECRET simulated_env = []"
  "EmailStr simulated_env ''ann@example.org'' = Some ''ann@example.org''"
  "inserted_id simulated_env [] = ''order-i''"
  by (simp_all add: simulated_env_def)

lemma real_env_simps:
  "STRIPE_SECRET real_env = ''sk_test''"
  "FRONTEND_URL real_env = None"
  by (simp_all add: real_env_def simulated_env_def)

text \<open>In real mode the concrete processor accepts a request that has a line.\<close>

lemma checkout_real_env:
  assumes "real_loop (products shop) its [] = Inr lis" and "lis \<noteq> []"
  shows "checkout real_env (request its) shop =
     (Inr (UrlResponse ''https://pay.example/session''),
      shop\<lparr>sessions :=
        [\<lparr>mode = ''payment'', line_items = lis,
          success_url = ''http://localhost:3000/checkout/success'',
          cancel_url = ''http://localhost:3000/checkout/cancel'',
          sp_customer_email = ''ann@example.org''\<rparr>]\<rparr>)"
  using assms
  by (simp add: checkout_def real_try_def request_def real_env_def simulated_env_def
      frontend_url_def Let_def shop_def)

subsection \<open>C1: the status of the order persisted in simulated mode\<close>

text \<open>
  C1. In simulated mode the order that \<^verbatim>\<open>checkout\<close> persists is to have status "paid", as the
  comment on line 111 says too. Evaluated on the example of the specification (two of product
  \<open>A\<close>, price 100.0), the endpoint answers with success, the order identifier and the
  simulated-payment flag, and persists one order of total 200.0, but its status is
  "pending": line 129 passes no status, so the default of the schema stays.
\<close>

theorem simulated_order_is_pending:
  "checkout simulated_env (request [line_A2]) shop =
     (Inr (SimulatedResponse True ''order-i'' True),
      shop\<lparr>orders :=
        [(''order-i'',
          \<lparr>user_email = ''ann@example.org'',
           items = [\<lparr>product_id = ''64b7f0c2a1d3e4f5a6b7c8d9'', title = ''Oak table'',
                     unit_price = Finite 100, quantity = 2, subtotal = Finite 200\<rparr>],
           total = Finite 200, currency = ''inr'', status = ''pending'',
           payment_intent_id = None\<rparr>)]\<rparr>)"
proof -
  have "list_all2 (\<lambda>it (doc, q). priced (products shop) it doc q)
          (CheckoutRequest.items (request [line_A2])) [(product_A, 2)]"
    by (simp add: request_def priced_A2)
  from checkout_simulated_ok [OF simulated_env_simps(1) this, of "''ann@example.org''"]
  show ?thesis
    by (simp add: request_def simulated_env_simps snapshot_A2 fadd_0_200 shop_def)
qed

subsection \<open>C2: the total is the sum of the catalog subtotals\<close>

text \<open>
  C2. For every cart whose lines can all be priced (each resolves, with a quantity in the
  range of a float) and a customer e-mail that the order schema accepts, simulated checkout
  persists an order whose total is the sum, accumulated from 0.0 in input order by float
  addition, of the float products unit price times quantity, each unit price being the one of
  the catalog document just looked up; the unit prices and quantities of the embedded items
  are those of the lines, in order, and every item has subtotal = unit price times quantity.
\<close>

theorem total_is_sum_of_catalog_subtotals:
  assumes "STRIPE_SECRET e = []"
    and "list_all2 (\<lambda>it (doc, q). priced (products w) it doc q) (CheckoutRequest.items req) lines"
    and "EmailStr e (customer_email req) = Some addr"
  shows "\<exists>oid ord.
      checkout e req w =
        (Inr (SimulatedResponse True oid True), w\<lparr>orders := orders w @ [(oid, ord)]\<rparr>)
    \<and> total ord =
        foldl fadd (Finite 0)
          (map (\<lambda>(doc, q). fmul (prod_get (prod_price doc) (Finite 0)) (int_as_float q)) lines)
    \<and> map unit_price (items ord) = map (\<lambda>(doc, q). prod_get (prod_price doc) (Finite 0)) lines
    \<and> map quantity (items ord) = map snd lines
    \<and> list_all (\<lambda>oi. subtotal oi = fmul (unit_price oi) (int_as_float (quantity oi))) (items ord)"
proof -
  define ois where "ois = map (\<lambda>(doc, q). snapshot doc q) lines"
  define oid where "oid = inserted_id e (orders w)"
  define ord where
    "ord = \<lparr>user_email = addr, items = ois, total = foldl fadd (Finite 0) (map subtotal ois),
            currency = ''inr'', status = ''pending'', payment_intent_id = None\<rparr>"
  have run: "checkout e req w =
      (Inr (SimulatedResponse True oid True), w\<lparr>orders := orders w @ [(oid, ord)]\<rparr>)"
    unfolding ord_def ois_def oid_def by (rule checkout_simulated_ok [OF assms])
  have sub: "map subtotal ois =
      map (\<lambda>(doc, q). fmul (prod_get (prod_price doc) (Finite 0)) (int_as_float q)) lines"
    by (simp add: ois_def snapshot_def split_def)
  have tot: "total ord =
      foldl fadd (Finite 0)
        (map (\<lambda>(doc, q). fmul (prod_get (prod_price doc) (Finite 0)) (int_as_float q)) lines)"
    by (simp add: ord_def sub)
  have price: "map unit_price (items ord) =
      map (\<lambda>(doc, q). prod_get (prod_price doc) (Finite 0)) lines"
    by (simp add: ord_def ois_def snapshot_def split_def)
  have qty: "map quantity (items ord) = map snd lines"
    by (simp add: ord_def ois_def snapshot_def split_def)
  have each: "list_all (\<lambda>oi. subtotal oi = fmul (unit_price oi) (int_as_float (quantity oi)))
      (items ord)"
    by (simp add: ord_def ois_def list_all_iff snapshot_def split_def)
  from run tot price qty each show ?thesis
    by blast
qed

text \<open>
  The hypotheses of C2 hold for the cart of two of product \<open>A\<close> and one of product \<open>B\<close>:
  the total is 201.0078125 = 25729/128.
\<close>

theorem total_is_sum_of_catalog_subtotals_witness:
  "STRIPE_SECRET simulated_env = []
   \<and> priced (products shop) line_A2 product_A 2
   \<and> priced (products shop) line_B product_B 1
   \<and> (\<exists>oid ord.
        checkout simulated_env (request [line_A2, line_B]) shop =
          (Inr (SimulatedResponse True oid True), shop\<lparr>orders := orders shop @ [(oid, ord)]\<rparr>)
      \<and> total ord = Finite (25729 / 128)
      \<and> map unit_price (items ord) = [Finite 100, Finite (129 / 128)]
      \<and> map quantity (items ord) = [2, 1])"
proof -
  have "list_all2 (\<lambda>it (doc, q). priced (products shop) it doc q)
          (CheckoutRequest.items (request [line_A2, line_B])) [(product_A, 2), (product_B, 1)]"
    by (simp add: request_def priced_A2 priced_B)
  from total_is_sum_of_catalog_subtotals [OF simulated_env_simps(1) this, of "''ann@example.org''"]
  obtain oid ord where
    run: "checkout simulated_env (request [line_A2, line_B]) shop =
      (Inr (SimulatedResponse True oid True), shop\<lparr>orders := orders shop @ [(oid, ord)]\<rparr>)"
    and tot: "total ord =
      foldl fadd (Finite 0)
        (map (\<lambda>(doc, q). fmul (prod_get (prod_price doc) (Finite 0)) (int_as_float q))
           [(product_A, 2), (product_B, 1)])"
    and price: "map unit_price (items ord) =
      map (\<lambda>(doc, q). prod_get (prod_price doc) (Finite 0)) [(product_A, 2::int), (product_B, 1)]"
    and qty: "map quantity (items ord) = map snd [(product_A, 2::int), (product_B, 1)]"
    by (auto simp: request_def simulated_env_simps)
  have "total ord = Finite (25729 / 128)"
    unfolding tot
    by (simp add: product_A_def product_B_def prod_get_def int_as_float_small fmul_100_2
        fmul_B_1 fadd_0_200 fadd_200_B)
  moreover have "map unit_price (items ord) = [Finite 100, Finite (129 / 128)]"
    unfolding price by (simp add: product_A_def product_B_def prod_get_def)
  moreover have "map quantity (items ord) = [2, 1]"
    unfolding qty by simp
  ultimately have "\<exists>oid ord.
        checkout simulated_env (request [line_A2, line_B]) shop =
          (Inr (SimulatedResponse True oid True), shop\<lparr>orders := orders shop @ [(oid, ord)]\<rparr>)
      \<and> total ord = Finite (25729 / 128)
      \<and> map unit_price (items ord) = [Finite 100, Finite (129 / 128)]
      \<and> map quantity (items ord) = [2, 1]"
    using run by (intro exI [of _ oid] exI [of _ ord] conjI)
  with simulated_env_simps(1) priced_A2 priced_B show ?thesis
    by (intro conjI)
qed

subsection \<open>The real path as a whole\<close>

lemma real_try_orders: "orders (snd (real_try e req w)) = orders w"
  by (simp add: real_try_def Let_def split: sum.splits)

lemma real_try_products: "products (snd (real_try e req w)) = products w"
  by (simp add: real_try_def Let_def split: sum.splits)

lemma checkout_real:
  "STRIPE_SECRET e \<noteq> [] \<Longrightarrow>
   checkout e req w =
     (case real_try e req w of
        (Inl x, w') \<Rightarrow> (Inl (HTTPException 400 (exc_str e x)), w')
      | (Inr r, w') \<Rightarrow> (Inr r, w'))"
  by (simp add: checkout_def)

text \<open>In real mode every failure leaves the endpoint as a 400.\<close>

lemma checkout_real_failure_is_400:
  "STRIPE_SECRET e \<noteq> [] \<Longrightarrow> checkout e req w = (Inl x, w') \<Longrightarrow>
   \<exists>y. x = HTTPException 400 (exc_str e y)"
  by (auto simp: checkout_real split: prod.splits sum.splits)

lemma checkout_real_processor_failure:
  assumes "STRIPE_SECRET e \<noteq> []"
    and "real_loop (products w) (CheckoutRequest.items req) [] = Inr lis"
    and "Session_create e
           \<lparr>mode = ''payment'', line_items = lis,
            success_url = frontend_url e @ ''/checkout/success'',
            cancel_url = frontend_url e @ ''/checkout/cancel'',
            sp_customer_email = customer_email req\<rparr> = Inl x"
  shows "fst (checkout e req w) = Inl (HTTPException 400 (exc_str e x))"
  using assms by (simp add: checkout_real real_try_def Let_def)

text \<open>
  In real mode a request reaches the processor exactly when the loop succeeded on every line
  of the cart, and it carries the results of the loop body, in order.
\<close>

lemma checkout_real_session:
  assumes "STRIPE_SECRET e \<noteq> []"
    and "sessions (snd (checkout e req w)) = sessions w @ [params]"
  shows "list_all2 (\<lambda>it li. real_line (products w) it = Inr li)
           (CheckoutRequest.items req) (line_items params)"
proof (cases "real_loop (products w) (CheckoutRequest.items req) []")
  case (Inl x)
  with assms show ?thesis
    by (simp add: checkout_real real_try_def)
next
  case (Inr lis)
  with assms have "line_items params = lis"
    by (auto simp: checkout_real real_try_def Let_def split: sum.splits)
  with real_loop_Inr [OF Inr] show ?thesis
    by auto
qed

lemma checkout_simulated_missing_product:
  assumes "STRIPE_SECRET e = []"
    and "list_all2 (\<lambda>it (doc, q). priced (products w) it doc q) xs lines"
    and "unresolvable (products w) it"
    and "CheckoutRequest.items req = xs @ it # rest"
  shows "checkout e req w = (Inl (HTTPException 404 ''Product not found''), w)"
proof -
  have "simulated_loop (products w) (xs @ it # rest) its tot =
      Inl (HTTPException 404 ''Product not found'')" for its tot
    using assms(2)
    by (induction xs lines arbitrary: its tot rule: list_all2_induct)
      (auto simp: priced_simulated_line unresolvable_simulated_line [OF assms(3)])
  with assms(1,4) show ?thesis
    by (simp add: checkout_def)
qed

subsection \<open>C3: an unresolvable line aborts the checkout without effect\<close>

text \<open>
  C3. If some line of the cart, at whatever position, names a product that Catalog Lookup
  does not find, checkout fails in both modes and leaves the world as it was: no order is
  persisted and no session is requested from the payment processor. In real mode the loop
  that resolves the catalog runs before the call to the processor, so the failure precedes it.
\<close>

theorem unresolvable_line_aborts_without_effect:
  assumes "it \<in> set (CheckoutRequest.items req)"
    and "unresolvable (products w) it"
  shows "(\<exists>x. fst (checkout e req w) = Inl x)
    \<and> snd (checkout e req w) = w
    \<and> orders (snd (checkout e req w)) = orders w
    \<and> sessions (snd (checkout e req w)) = sessions w"
proof (cases "STRIPE_SECRET e = []")
  case True
  from simulated_loop_fail [OF assms(1) unresolvable_simulated_line [OF assms(2)]]
  obtain x where "simulated_loop (products w) (CheckoutRequest.items req) [] (Finite 0) = Inl x"
    by blast
  with True show ?thesis
    by (simp add: checkout_def)
next
  case False
  from real_loop_fail [OF assms(1) unresolvable_real_line [OF assms(2)]]
  obtain x where "real_loop (products w) (CheckoutRequest.items req) [] = Inl x"
    by blast
  with False show ?thesis
    by (simp add: checkout_def real_try_def)
qed

text \<open>
  The hypotheses of C3 hold with the unresolvable line in the last position of a cart of
  three, in real and in simulated mode.
\<close>

theorem unresolvable_line_aborts_without_effect_witness:
  "line_missing \<in> set (CheckoutRequest.items (request [line_A2, line_B, line_missing]))
   \<and> unresolvable (products shop) line_missing
   \<and> (\<exists>x. fst (checkout real_env (request [line_A2, line_B, line_missing]) shop) = Inl x)
   \<and> snd (checkout real_env (request [line_A2, line_B, line_missing]) shop) = shop
   \<and> (\<exists>x. fst (checkout simulated_env (request [line_A2, line_B, line_missing]) shop) = Inl x)
   \<and> snd (checkout simulated_env (request [line_A2, line_B, line_missing]) shop) = shop"
proof -
  have mem: "line_missing \<in> set (CheckoutRequest.items (request [line_A2, line_B, line_missing]))"
    by (simp add: request_def)
  from unresolvable_line_aborts_without_effect [OF mem unresolvable_missing, of real_env]
    unresolvable_line_aborts_without_effect [OF mem unresolvable_missing, of simulated_env]
    mem unresolvable_missing
  show ?thesis by (intro conjI) simp_all
qed

subsection \<open>C4: prices in the request are not read\<close>

lemma getitem_reads:
  assumes "map_of a k = map_of b k"
  shows "getitem a k = getitem b k"
  by (simp add: getitem_def assms)

lemma dict_get_reads:
  assumes "map_of a k = map_of b k"
  shows "dict_get a k d = dict_get b k d"
  by (simp add: dict_get_def assms)

lemma simulated_line_reads:
  assumes "map_of a ''product_id'' = map_of b ''product_id''"
    and "map_of a ''quantity'' = map_of b ''quantity''"
  shows "simulated_line ps a = simulated_line ps b"
  by (simp only: simulated_line_def getitem_reads [OF assms(1)] dict_get_reads [OF assms(2)])

lemma real_line_reads:
  assumes "map_of a ''product_id'' = map_of b ''product_id''"
    and "map_of a ''quantity'' = map_of b ''quantity''"
  shows "real_line ps a = real_line ps b"
  by (simp only: real_line_def getitem_reads [OF assms(1)] dict_get_reads [OF assms(2)])

lemma simulated_loop_reads:
  "list_all2 (\<lambda>a b. simulated_line ps a = simulated_line ps b) xs ys \<Longrightarrow>
   simulated_loop ps xs its tot = simulated_loop ps ys its tot"
proof (induction xs ys arbitrary: its tot rule: list_all2_induct)
  case Nil
  show ?case by simp
next
  case (Cons x xs y ys)
  have "simulated_loop ps (x # xs) its tot =
      (case simulated_line ps y of
         Inl e \<Rightarrow> Inl e
       | Inr oi \<Rightarrow> simulated_loop ps xs (its @ [oi]) (fadd tot (subtotal oi)))"
    by (simp only: simulated_loop.simps Cons.hyps(1))
  also have "\<dots> = simulated_loop ps (y # ys) its tot"
    by (simp only: simulated_loop.simps Cons.IH)
  finally show ?case .
qed

lemma real_loop_reads:
  "list_all2 (\<lambda>a b. real_line ps a = real_line ps b) xs ys \<Longrightarrow>
   real_loop ps xs lis = real_loop ps ys lis"
proof (induction xs ys arbitrary: lis rule: list_all2_induct)
  case Nil
  show ?case by simp
next
  case (Cons x xs y ys)
  have "real_loop ps (x # xs) lis =
      (case real_line ps y of Inl e \<Rightarrow> Inl e | Inr li \<Rightarrow> real_loop ps xs (lis @ [li]))"
    by (simp only: real_loop.simps Cons.hyps(1))
  also have "\<dots> = real_loop ps (y # ys) lis"
    by (simp only: real_loop.simps Cons.IH)
  finally show ?case .
qed

text \<open>
  Two requests with the same customer e-mail, on whose lines the loop bodies agree position by
  position, give the same result in the same world.
\<close>

lemma checkout_reads:
  assumes "customer_email req1 = customer_email req2"
    and "list_all2 (\<lambda>a b. simulated_line (products w) a = simulated_line (products w) b)
           (CheckoutRequest.items req1) (CheckoutRequest.items req2)"
    and "list_all2 (\<lambda>a b. real_line (products w) a = real_line (products w) b)
           (CheckoutRequest.items req1) (CheckoutRequest.items req2)"
  shows "checkout e req1 w = checkout e req2 w"
proof -
  from assms(2) have sim:
    "simulated_loop (products w) (CheckoutRequest.items req1) [] (Finite 0) =
     simulated_loop (products w) (CheckoutRequest.items req2) [] (Finite 0)"
    by (rule simulated_loop_reads)
  from assms(3) have re: "real_loop (products w) (CheckoutRequest.items req1) [] =
      real_loop (products w) (CheckoutRequest.items req2) []"
    by (rule real_loop_reads)
  show ?thesis
    by (simp only: checkout_def real_try_def sim re assms(1))
qed

text \<open>
  C4. Checkout reads two keys of a cart line, \<^verbatim>\<open>product_id\<close> and \<^verbatim>\<open>quantity\<close>. Two requests
  with the same customer e-mail whose lines agree, position by position, on these two keys
  give the same result in the same world, whatever else their lines carry (a price, a unit
  price, a title): the same response or failure, the same persisted order with the same
  items and total, the same request to the payment processor.
\<close>

theorem checkout_ignores_request_prices:
  assumes "customer_email req1 = customer_email req2"
    and "list_all2 (\<lambda>a b. map_of a ''product_id'' = map_of b ''product_id''
                         \<and> map_of a ''quantity'' = map_of b ''quantity'')
           (CheckoutRequest.items req1) (CheckoutRequest.items req2)"
  shows "checkout e req1 w = checkout e req2 w"
proof -
  from assms(2) have sim:
    "list_all2 (\<lambda>a b. simulated_line (products w) a = simulated_line (products w) b)
       (CheckoutRequest.items req1) (CheckoutRequest.items req2)"
    by (rule list_all2_mono) (blast intro: simulated_line_reads)
  from assms(2) have re:
    "list_all2 (\<lambda>a b. real_line (products w) a = real_line (products w) b)
       (CheckoutRequest.items req1) (CheckoutRequest.items req2)"
    by (rule list_all2_mono) (blast intro: real_line_reads)
  from assms(1) sim re show ?thesis
    by (rule checkout_reads)
qed

text \<open>
  The hypotheses of C4 hold for the cart of two of product \<open>A\<close> and the same cart with a
  price and a unit price attached to the line.
\<close>

theorem checkout_ignores_request_prices_witness:
  "customer_email (request [line_A2_priced]) = customer_email (request [line_A2])
   \<and> map_of line_A2_priced ''price'' = Some (JFloat (Finite 1))
   \<and> map_of line_A2 ''price'' = None
   \<and> checkout simulated_env (request [line_A2_priced]) shop =
       checkout simulated_env (request [line_A2]) shop
   \<and> checkout real_env (request [line_A2_priced]) shop =
       checkout real_env (request [line_A2]) shop"
proof -
  have em: "customer_email (request [line_A2_priced]) = customer_email (request [line_A2])"
    by (simp add: request_def)
  have ls: "list_all2 (\<lambda>a b. map_of a ''product_id'' = map_of b ''product_id''
                         \<and> map_of a ''quantity'' = map_of b ''quantity'')
           (CheckoutRequest.items (request [line_A2_priced]))
           (CheckoutRequest.items (request [line_A2]))"
    by (simp add: request_def line_A2_priced_def line_A2_def)
  have "map_of line_A2_priced ''price'' = Some (JFloat (Finite 1))"
    "map_of line_A2 ''price'' = None"
    by (simp_all add: line_A2_priced_def line_A2_def)
  with em checkout_ignores_request_prices [OF em ls, of simulated_env shop]
    checkout_ignores_request_prices [OF em ls, of real_env shop]
  show ?thesis by (intro conjI)
qed

subsection \<open>C5: the minor-unit amount\<close>

text \<open>
  C5. The price descriptor of a line is to carry the minor-unit amount
  round(unit price times 100), the amount in paise that the comment on line 145 asks for. On
  the example of the specification (product \<open>A\<close>, price 100.0, quantity 2) checkout sends the
  amount 10000 and the quantity 2. For product \<open>C\<close>, of price 19.99, with its currency and its
  title as display name, it sends 1998, one paisa short: the float product 19.99 * 100 is
  1998.9999999999998, which \<^verbatim>\<open>int\<close> on line 146 truncates, where rounding gives 1999.
\<close>

theorem minor_unit_amount_of_19_99_is_1998:
  "prod_price product_C = Some (round64 (1999 / 100))
   \<and> checkout real_env (request [line_C]) shop =
       (Inr (UrlResponse ''https://pay.example/session''),
        shop\<lparr>sessions :=
          [\<lparr>mode = ''payment'',
            line_items =
              [\<lparr>li_price_data =
                  \<lparr>pd_currency = ''inr'', pd_product_data = \<lparr>name = ''Stool''\<rparr>,
                   unit_amount = 1998\<rparr>,
                li_quantity = 1\<rparr>],
            success_url = ''http://localhost:3000/checkout/success'',
            cancel_url = ''http://localhost:3000/checkout/cancel'',
            sp_customer_email = ''ann@example.org''\<rparr>]\<rparr>)
   \<and> py_round (fmul (round64 (1999 / 100)) (Finite 100)) = Inr 1999
   \<and> map line_items (sessions (snd (checkout real_env (request [line_A2]) shop))) =
       [[\<lparr>li_price_data =
            \<lparr>pd_currency = ''usd'', pd_product_data = \<lparr>name = ''Oak table''\<rparr>,
             unit_amount = 10000\<rparr>,
          li_quantity = 2\<rparr>]]"
proof -
  have "prod_price product_C = Some (round64 (1999 / 100))"
    by (simp add: product_C_def)
  moreover have "real_loop (products shop) [line_C] [] =
      Inr [\<lparr>li_price_data =
                  \<lparr>pd_currency = ''inr'', pd_product_data = \<lparr>name = ''Stool''\<rparr>,
                   unit_amount = 1998\<rparr>,
                li_quantity = 1\<rparr>]"
    by (simp add: real_line_C)
  then have "checkout real_env (request [line_C]) shop =
       (Inr (UrlResponse ''https://pay.example/session''),
        shop\<lparr>sessions :=
          [\<lparr>mode = ''payment'',
            line_items =
              [\<lparr>li_price_data =
                  \<lparr>pd_currency = ''inr'', pd_product_data = \<lparr>name = ''Stool''\<rparr>,
                   unit_amount = 1998\<rparr>,
                li_quantity = 1\<rparr>],
            success_url = ''http://localhost:3000/checkout/success'',
            cancel_url = ''http://localhost:3000/checkout/cancel'',
            sp_customer_email = ''ann@example.org''\<rparr>]\<rparr>)"
    by (rule checkout_real_env) simp
  moreover have "py_round (fmul (round64 (1999 / 100)) (Finite 100)) = Inr 1999"
    by (simp add: float_19_99 fmul_19_99_100 round_19_99_100)
  moreover have "real_loop (products shop) [line_A2] [] =
      Inr [\<lparr>li_price_data =
                  \<lparr>pd_currency = ''usd'', pd_product_data = \<lparr>name = ''Oak table''\<rparr>,
                   unit_amount = 10000\<rparr>,
                li_quantity = 2\<rparr>]"
    by (simp add: real_line_A2)
  then have "map line_items (sessions (snd (checkout real_env (request [line_A2]) shop))) =
       [[\<lparr>li_price_data =
            \<lparr>pd_currency = ''usd'', pd_product_data = \<lparr>name = ''Oak table''\<rparr>,
             unit_amount = 10000\<rparr>,
          li_quantity = 2\<rparr>]]"
    by (subst checkout_real_env) simp_all
  ultimately show ?thesis by (intro conjI)
qed

subsection \<open>C6: the status of a failure\<close>

text \<open>
  C6. A checkout that names a missing product is to fail with a 404 in both modes. In
  simulated mode it does. In real mode line 139 raises the same 404, but inside the \<^verbatim>\<open>try\<close>
  block, and \<^verbatim>\<open>except Exception\<close> on line 158 catches it and raises a 400 whose detail is the
  text of the 404. Evaluated for a cart of one line that names a product the catalog does not
  hold, for any rendering \<open>f\<close> of exceptions as text. (That a failure of the processor gives a
  400 carrying its text is \<open>checkout_real_processor_failure\<close>.)
\<close>

theorem real_missing_product_is_400:
  "checkout (real_env\<lparr>exc_str := f\<rparr>) (request [line_missing]) shop =
     (Inl (HTTPException 400 (f (HTTPException 404 ''Product not found''))), shop)
   \<and> checkout simulated_env (request [line_missing]) shop =
     (Inl (HTTPException 404 ''Product not found''), shop)"
proof -
  have "real_loop (products shop) [line_missing] [] = Inl (HTTPException 404 ''Product not found'')"
    by (simp add: unresolvable_real_line [OF unresolvable_missing])
  then have "checkout (real_env\<lparr>exc_str := f\<rparr>) (request [line_missing]) shop =
     (Inl (HTTPException 400 (f (HTTPException 404 ''Product not found''))), shop)"
    by (simp add: checkout_def real_try_def request_def real_env_simps)
  moreover have "simulated_loop (products shop) [line_missing] [] (Finite 0) =
      Inl (HTTPException 404 ''Product not found'')"
    by (simp add: unresolvable_simulated_line [OF unresolvable_missing])
  then have "checkout simulated_env (request [line_missing]) shop =
     (Inl (HTTPException 404 ''Product not found''), shop)"
    by (simp add: checkout_def request_def simulated_env_simps)
  ultimately show ?thesis by (intro conjI)
qed

subsection \<open>C7: real mode persists no order\<close>

text \<open>
  C7. In real mode a successful checkout leaves the orders (and the products) as they were:
  its one effect is the request sent to the payment processor, and its response is the URL
  that the processor returned for that request.
\<close>

theorem real_checkout_persists_no_order:
  assumes "STRIPE_SECRET e \<noteq> []"
    and "checkout e req w = (Inr r, w')"
  shows "orders w' = orders w \<and> products w' = products w
    \<and> (\<exists>params u. sessions w' = sessions w @ [params]
          \<and> Session_create e params = Inr u \<and> r = UrlResponse u)"
  using assms
  by (auto simp: checkout_real real_try_def Let_def split: sum.splits prod.splits)

text \<open>
  The hypotheses of C7 hold for the cart of two of product \<open>A\<close> in real mode.
\<close>

theorem real_checkout_persists_no_order_witness:
  "STRIPE_SECRET real_env \<noteq> []
   \<and> checkout real_env (request [line_A2]) shop =
       (Inr (UrlResponse ''https://pay.example/session''),
        shop\<lparr>sessions :=
          [\<lparr>mode = ''payment'',
            line_items =
              [\<lparr>li_price_data =
                  \<lparr>pd_currency = ''usd'', pd_product_data = \<lparr>name = ''Oak table''\<rparr>,
                   unit_amount = 10000\<rparr>,
                li_quantity = 2\<rparr>],
            success_url = ''http://localhost:3000/checkout/success'',
            cancel_url = ''http://localhost:3000/checkout/cancel'',
            sp_customer_email = ''ann@example.org''\<rparr>]\<rparr>)
   \<and> orders (shop\<lparr>sessions :=
          [\<lparr>mode = ''payment'',
            line_items =
              [\<lparr>li_price_data =
                  \<lparr>pd_currency = ''usd'', pd_product_data = \<lparr>name = ''Oak table''\<rparr>,
                   unit_amount = 10000\<rparr>,
                li_quantity = 2\<rparr>],
            success_url = ''http://localhost:3000/checkout/success'',
            cancel_url = ''http://localhost:3000/checkout/cancel'',
            sp_customer_email = ''ann@example.org''\<rparr>]\<rparr>) = orders shop"
proof -
  have secret: "STRIPE_SECRET real_env \<noteq> []"
    by (simp add: real_env_simps)
  have loop: "real_loop (products shop) [line_A2] [] =
      Inr [\<lparr>li_price_data =
                  \<lparr>pd_currency = ''usd'', pd_product_data = \<lparr>name = ''Oak table''\<rparr>,
                   unit_amount = 10000\<rparr>,
                li_quantity = 2\<rparr>]"
    by (simp add: real_line_A2)
  then have run: "checkout real_env (request [line_A2]) shop =
       (Inr (UrlResponse ''https://pay.example/session''),
        shop\<lparr>sessions :=
          [\<lparr>mode = ''payment'',
            line_items =
              [\<lparr>li_price_data =
                  \<lparr>pd_currency = ''usd'', pd_product_data = \<lparr>name = ''Oak table''\<rparr>,
                   unit_amount = 10000\<rparr>,
                li_quantity = 2\<rparr>],
            success_url = ''http://localhost:3000/checkout/success'',
            cancel_url = ''http://localhost:3000/checkout/cancel'',
            sp_customer_email = ''ann@example.org''\<rparr>]\<rparr>)"
    by (rule checkout_real_env) simp
  from real_checkout_persists_no_order [OF secret run] secret run
  show ?thesis by (intro conjI) simp_all
qed

subsection \<open>C8: an omitted quantity\<close>

lemma dict_get_absent:
  assumes "map_of it k = None"
  shows "dict_get it k d = d" and "dict_get (it @ [(k, d)]) k d' = d"
    and "k' \<noteq> k \<Longrightarrow> getitem (it @ [(k, d)]) k' = getitem it k'"
  using assms by (auto simp: dict_get_def getitem_def map_add_def split: option.splits)

text \<open>
  The body of either loop treats a line without the key \<^verbatim>\<open>quantity\<close> as the same line with
  quantity 1, and when it succeeds the quantity it records is 1.
\<close>

lemma omitted_quantity_line:
  assumes "map_of it ''quantity'' = None"
  shows "simulated_line ps it = simulated_line ps (it @ [(''quantity'', JInt 1)])"
    and "real_line ps it = real_line ps (it @ [(''quantity'', JInt 1)])"
    and "simulated_line ps it = Inr oi \<Longrightarrow>
         quantity oi = 1 \<and> subtotal oi = fmul (unit_price oi) (Finite 1)"
    and "real_line ps it = Inr li \<Longrightarrow> li_quantity li = 1"
proof -
  have g: "getitem (it @ [(''quantity'', JInt 1)]) ''product_id'' = getitem it ''product_id''"
    by (rule dict_get_absent(3) [OF assms]) simp
  have d: "dict_get (it @ [(''quantity'', JInt 1)]) ''quantity'' (JInt 1) = JInt 1"
    by (rule dict_get_absent(2) [OF assms])
  have d': "dict_get it ''quantity'' (JInt 1) = JInt 1"
    by (rule dict_get_absent(1) [OF assms])
  show "simulated_line ps it = simulated_line ps (it @ [(''quantity'', JInt 1)])"
    by (simp only: simulated_line_def g d d')
  show "real_line ps it = real_line ps (it @ [(''quantity'', JInt 1)])"
    by (simp only: real_line_def g d d')
  show "quantity oi = 1 \<and> subtotal oi = fmul (unit_price oi) (Finite 1)"
    if "simulated_line ps it = Inr oi"
    using that
    by (auto simp: simulated_line_def d' Let_def float_of_int_def in_float_range_small
        int_as_float_small split: sum.splits option.splits)
  show "li_quantity li = 1" if "real_line ps it = Inr li"
    using that
    by (auto simp: real_line_def d' split: sum.splits option.splits)
qed

text \<open>
  C8. Checkout treats a cart line without the key \<^verbatim>\<open>quantity\<close>, at whatever position of the
  cart, as the same line with quantity 1. In both modes the endpoint gives the same result
  and the same final world for the cart as for the cart in which that line carries quantity
  1. When simulated checkout succeeds, the order it persists has one item per line of the
  cart, and the item at the position of that line has quantity 1 and subtotal = unit price
  times 1.0. When real checkout sends a request to the payment processor, the request has one
  line item per line of the cart, and the line item at that position has quantity 1.
\<close>

theorem omitted_quantity_is_one:
  assumes "map_of it ''quantity'' = None"
    and "CheckoutRequest.items req = xs @ it # ys"
  shows "checkout e req w =
           checkout e (req\<lparr>CheckoutRequest.items := xs @ (it @ [(''quantity'', JInt 1)]) # ys\<rparr>) w
    \<and> (\<forall>r w'. STRIPE_SECRET e = [] \<longrightarrow> checkout e req w = (Inr r, w') \<longrightarrow>
          (\<exists>oid ord. r = SimulatedResponse True oid True
             \<and> w' = w\<lparr>orders := orders w @ [(oid, ord)]\<rparr>
             \<and> length (items ord) = length (CheckoutRequest.items req)
             \<and> quantity (items ord ! length xs) = 1
             \<and> subtotal (items ord ! length xs) =
                 fmul (unit_price (items ord ! length xs)) (Finite 1)))
    \<and> (\<forall>params. STRIPE_SECRET e \<noteq> [] \<longrightarrow>
          sessions (snd (checkout e req w)) = sessions w @ [params] \<longrightarrow>
          length (line_items params) = length (CheckoutRequest.items req)
          \<and> li_quantity (line_items params ! length xs) = 1)"
proof -
  define req' where
    "req' = req\<lparr>CheckoutRequest.items := xs @ (it @ [(''quantity'', JInt 1)]) # ys\<rparr>"
  have pos: "length xs < length (CheckoutRequest.items req)"
    "CheckoutRequest.items req ! length xs = it"
    by (simp_all add: assms(2))
  have em: "customer_email req = customer_email req'"
    by (simp add: req'_def)
  have its': "CheckoutRequest.items req' = xs @ (it @ [(''quantity'', JInt 1)]) # ys"
    by (simp add: req'_def)
  have "list_all2 (\<lambda>a b. simulated_line (products w) a = simulated_line (products w) b)
      (xs @ it # ys) (xs @ (it @ [(''quantity'', JInt 1)]) # ys)"
    by (intro list_all2_appendI list_all2_refl list_all2_Cons [THEN iffD2] conjI
        omitted_quantity_line(1) [OF assms(1)]) simp_all
  then have sim: "list_all2 (\<lambda>a b. simulated_line (products w) a = simulated_line (products w) b)
      (CheckoutRequest.items req) (CheckoutRequest.items req')"
    by (simp only: assms(2) its')
  have "list_all2 (\<lambda>a b. real_line (products w) a = real_line (products w) b)
      (xs @ it # ys) (xs @ (it @ [(''quantity'', JInt 1)]) # ys)"
    by (intro list_all2_appendI list_all2_refl list_all2_Cons [THEN iffD2] conjI
        omitted_quantity_line(2) [OF assms(1)]) simp_all
  then have re: "list_all2 (\<lambda>a b. real_line (products w) a = real_line (products w) b)
      (CheckoutRequest.items req) (CheckoutRequest.items req')"
    by (simp only: assms(2) its')
  have same: "checkout e req w = checkout e req' w"
    using em sim re by (rule checkout_reads)
  have simulated: "\<exists>oid ord. r = SimulatedResponse True oid True
             \<and> w' = w\<lparr>orders := orders w @ [(oid, ord)]\<rparr>
             \<and> length (items ord) = length (CheckoutRequest.items req)
             \<and> quantity (items ord ! length xs) = 1
             \<and> subtotal (items ord ! length xs) =
                 fmul (unit_price (items ord ! length xs)) (Finite 1)"
    if secret: "STRIPE_SECRET e = []" and run: "checkout e req w = (Inr r, w')" for r w'
  proof -
    from checkout_simulated_Inr [OF secret run] obtain oid ord where
      r: "r = SimulatedResponse True oid True"
      and w': "w' = w\<lparr>orders := orders w @ [(oid, ord)]\<rparr>"
      and lines: "list_all2 (\<lambda>it oi. simulated_line (products w) it = Inr oi)
         (CheckoutRequest.items req) (items ord)"
      by blast
    from lines have len: "length (items ord) = length (CheckoutRequest.items req)"
      by (simp add: list_all2_lengthD)
    from list_all2_nthD [OF lines pos(1)] pos(2)
    have "simulated_line (products w) it = Inr (items ord ! length xs)"
      by simp
    from omitted_quantity_line(3) [OF assms(1) this] r w' len show ?thesis
      by (intro exI [of _ oid] exI [of _ ord]) simp
  qed
  have real: "length (line_items params) = length (CheckoutRequest.items req)
          \<and> li_quantity (line_items params ! length xs) = 1"
    if secret: "STRIPE_SECRET e \<noteq> []"
      and run: "sessions (snd (checkout e req w)) = sessions w @ [params]" for params
  proof -
    from checkout_real_session [OF secret run] have
      lines: "list_all2 (\<lambda>it li. real_line (products w) it = Inr li)
         (CheckoutRequest.items req) (line_items params)" .
    from lines have len: "length (line_items params) = length (CheckoutRequest.items req)"
      by (simp add: list_all2_lengthD)
    from list_all2_nthD [OF lines pos(1)] pos(2)
    have "real_line (products w) it = Inr (line_items params ! length xs)"
      by simp
    from omitted_quantity_line(4) [OF assms(1) this] len show ?thesis
      by simp
  qed
  from same simulated real show ?thesis
    unfolding req'_def by blast
qed

text \<open>
  The hypotheses of C8 hold for the cart of two of product \<open>A\<close> followed by the line that
  names product \<open>B\<close> and nothing else: both modes answer as for the cart in which that line
  has quantity 1, the order persisted in simulated mode has the quantities 2 and 1, and so
  has the request sent in real mode.
\<close>

theorem omitted_quantity_is_one_witness:
  "map_of line_B ''quantity'' = None
   \<and> CheckoutRequest.items (request [line_A2, line_B]) = [line_A2] @ line_B # []
   \<and> checkout simulated_env (request [line_A2, line_B]) shop =
       checkout simulated_env (request [line_A2, line_B @ [(''quantity'', JInt 1)]]) shop
   \<and> checkout real_env (request [line_A2, line_B]) shop =
       checkout real_env (request [line_A2, line_B @ [(''quantity'', JInt 1)]]) shop
   \<and> (\<exists>oid ord.
        checkout simulated_env (request [line_A2, line_B]) shop =
          (Inr (SimulatedResponse True oid True), shop\<lparr>orders := orders shop @ [(oid, ord)]\<rparr>)
      \<and> map quantity (items ord) = [2, 1])
   \<and> (\<exists>params.
        sessions (snd (checkout real_env (request [line_A2, line_B]) shop)) =
          sessions shop @ [params]
      \<and> map li_quantity (line_items params) = [2, 1])"
proof -
  have absent: "map_of line_B ''quantity'' = None"
    by (simp add: line_B_def)
  have cart: "CheckoutRequest.items (request [line_A2, line_B]) = [line_A2] @ line_B # []"
    by (simp add: request_def)
  have req': "(request [line_A2, line_B])
        \<lparr>CheckoutRequest.items := [line_A2] @ (line_B @ [(''quantity'', JInt 1)]) # []\<rparr> =
      request [line_A2, line_B @ [(''quantity'', JInt 1)]]"
    by (simp add: request_def)
  from omitted_quantity_is_one [OF absent cart, of simulated_env shop]
  have sim: "checkout simulated_env (request [line_A2, line_B]) shop =
       checkout simulated_env (request [line_A2, line_B @ [(''quantity'', JInt 1)]]) shop"
    unfolding req' by blast
  from omitted_quantity_is_one [OF absent cart, of real_env shop]
  have re: "checkout real_env (request [line_A2, line_B]) shop =
       checkout real_env (request [line_A2, line_B @ [(''quantity'', JInt 1)]]) shop"
    unfolding req' by blast
  have "list_all2 (\<lambda>it (doc, q). priced (products shop) it doc q)
          (CheckoutRequest.items (request [line_A2, line_B])) [(product_A, 2), (product_B, 1)]"
    by (simp add: request_def priced_A2 priced_B)
  from checkout_simulated_ok [OF simulated_env_simps(1) this, of "''ann@example.org''"]
  have order: "\<exists>oid ord.
        checkout simulated_env (request [line_A2, line_B]) shop =
          (Inr (SimulatedResponse True oid True), shop\<lparr>orders := orders shop @ [(oid, ord)]\<rparr>)
      \<and> map quantity (items ord) = [2, 1]"
    by (intro exI [of _ "inserted_id simulated_env (orders shop)"]
        exI [of _ "\<lparr>user_email = ''ann@example.org'',
            items = map (\<lambda>(doc, q). snapshot doc q) [(product_A, 2), (product_B, 1)],
            total = foldl fadd (Finite 0)
              (map subtotal (map (\<lambda>(doc, q). snapshot doc q) [(product_A, 2), (product_B, 1)])),
            currency = ''inr'', status = ''pending'', payment_intent_id = None\<rparr>"])
      (simp add: request_def simulated_env_simps snapshot_def)
  define lis where
    "lis = [\<lparr>li_price_data =
                \<lparr>pd_currency = ''usd'', pd_product_data = \<lparr>name = ''Oak table''\<rparr>,
                 unit_amount = 10000\<rparr>,
              li_quantity = 2\<rparr>,
            \<lparr>li_price_data =
                \<lparr>pd_currency = ''inr'', pd_product_data = \<lparr>name = ''Peg''\<rparr>,
                 unit_amount = 100\<rparr>,
              li_quantity = 1\<rparr>]"
  have loop: "real_loop (products shop) [line_A2, line_B] [] = Inr lis"
    by (simp add: lis_def real_line_A2 real_line_B)
  have "lis \<noteq> []"
    by (simp add: lis_def)
  from checkout_real_env [OF loop this]
  have session: "\<exists>params.
        sessions (snd (checkout real_env (request [line_A2, line_B]) shop)) =
          sessions shop @ [params]
      \<and> map li_quantity (line_items params) = [2, 1]"
    by (simp add: shop_def lis_def)
  from absent cart sim re order session show ?thesis
    by (intro conjI)
qed

subsection \<open>C9: non-positive quantities\<close>

text \<open>
  C9, as stated, fails: a non-positive quantity beyond the range of a float is rejected. The
  line with quantity -10^400 of product \<open>A\<close> resolves, and the e-mail is accepted, but
  \<^verbatim>\<open>unit_price * qty\<close> on line 120 raises \<^verbatim>\<open>OverflowError\<close>, which leaves the endpoint, and no order
  is persisted.
\<close>

theorem huge_non_positive_quantity_is_rejected:
  "resolves (products shop) line_A_huge product_A (- (10 ^ 400))
   \<and> - (10 ^ 400) \<le> (0 :: int)
   \<and> EmailStr simulated_env (customer_email (request [line_A_huge])) = Some ''ann@example.org''
   \<and> checkout simulated_env (request [line_A_huge]) shop = (Inl OverflowError, shop)"
proof -
  have "simulated_loop (products shop) [line_A_huge] [] (Finite 0) = Inl OverflowError"
    by (simp add: resolves_out_of_range [OF resolves_A_huge not_in_float_range_huge])
  then have "checkout simulated_env (request [line_A_huge]) shop = (Inl OverflowError, shop)"
    by (simp add: checkout_def request_def simulated_env_simps)
  moreover have "EmailStr simulated_env (customer_email (request [line_A_huge])) =
      Some ''ann@example.org''"
    by (simp add: request_def simulated_env_simps)
  moreover have "- (10 ^ 400) \<le> (0 :: int)"
    by simp
  ultimately show ?thesis
    using resolves_A_huge by (intro conjI)
qed

text \<open>
  C9, amended. Simulated checkout does not reject a non-positive quantity that is in the
  range of a float: when every line of the cart can be priced and the order schema accepts
  the e-mail, a line of quantity \<open>q \<le> 0\<close> does not stop the checkout, which succeeds and
  persists an order whose item at the position of that line has quantity \<open>q\<close> and as subtotal
  the float product of unit price and \<open>q\<close>.
\<close>

theorem non_positive_quantity_is_accepted:
  assumes "STRIPE_SECRET e = []"
    and "list_all2 (\<lambda>it (doc, q). priced (products w) it doc q) (CheckoutRequest.items req) lines"
    and "EmailStr e (customer_email req) = Some addr"
    and "i < length lines"
    and "lines ! i = (doc, q)"
    and "q \<le> 0"
  shows "\<exists>oid ord.
      checkout e req w =
        (Inr (SimulatedResponse True oid True), w\<lparr>orders := orders w @ [(oid, ord)]\<rparr>)
    \<and> length (items ord) = length lines
    \<and> quantity (items ord ! i) = q
    \<and> unit_price (items ord ! i) = prod_get (prod_price doc) (Finite 0)
    \<and> subtotal (items ord ! i) = fmul (prod_get (prod_price doc) (Finite 0)) (int_as_float q)"
proof -
  define ord where
    "ord = \<lparr>user_email = addr, items = map (\<lambda>(doc, q). snapshot doc q) lines,
            total = foldl fadd (Finite 0) (map subtotal (map (\<lambda>(doc, q). snapshot doc q) lines)),
            currency = ''inr'', status = ''pending'', payment_intent_id = None\<rparr>"
  have run: "checkout e req w =
      (Inr (SimulatedResponse True (inserted_id e (orders w)) True),
       w\<lparr>orders := orders w @ [(inserted_id e (orders w), ord)]\<rparr>)"
    unfolding ord_def by (rule checkout_simulated_ok [OF assms(1-3)])
  have len: "length (items ord) = length lines"
    by (simp add: ord_def)
  have item: "items ord ! i = snapshot doc q"
    using assms(4,5) by (simp add: ord_def)
  have "quantity (items ord ! i) = q"
    "unit_price (items ord ! i) = prod_get (prod_price doc) (Finite 0)"
    "subtotal (items ord ! i) = fmul (prod_get (prod_price doc) (Finite 0)) (int_as_float q)"
    unfolding item by (simp_all add: snapshot_def)
  with run len show ?thesis by blast
qed

text \<open>
  The hypotheses of the amended C9 hold for a cart of one line with quantity -3 of product
  \<open>A\<close>: the order item has subtotal -300.0.
\<close>

theorem non_positive_quantity_is_accepted_witness:
  "STRIPE_SECRET simulated_env = []
   \<and> priced (products shop) line_A_returned product_A (- 3)
   \<and> (- 3 :: int) \<le> 0
   \<and> (\<exists>oid ord.
        checkout simulated_env (request [line_A_returned]) shop =
          (Inr (SimulatedResponse True oid True), shop\<lparr>orders := orders shop @ [(oid, ord)]\<rparr>)
      \<and> quantity (items ord ! 0) = - 3
      \<and> subtotal (items ord ! 0) = Finite (- 300))"
proof -
  have lines: "list_all2 (\<lambda>it (doc, q). priced (products shop) it doc q)
          (CheckoutRequest.items (request [line_A_returned])) [(product_A, - 3)]"
    by (simp add: request_def priced_A_returned)
  have email: "EmailStr simulated_env (customer_email (request [line_A_returned])) =
      Some ''ann@example.org''"
    by (simp add: request_def simulated_env_simps)
  from non_positive_quantity_is_accepted [OF simulated_env_simps(1) lines email, of 0 product_A "- 3"]
  obtain oid ord where
    run: "checkout simulated_env (request [line_A_returned]) shop =
      (Inr (SimulatedResponse True oid True), shop\<lparr>orders := orders shop @ [(oid, ord)]\<rparr>)"
    and q: "quantity (items ord ! 0) = - 3"
    and s: "subtotal (items ord ! 0) =
      fmul (prod_get (prod_price product_A) (Finite 0)) (int_as_float (- 3))"
    by auto
  have "subtotal (items ord ! 0) = Finite (- 300)"
    unfolding s by (simp add: product_A_def prod_get_def int_as_float_small fmul_100_neg3)
  with run q have "\<exists>oid ord.
        checkout simulated_env (request [line_A_returned]) shop =
          (Inr (SimulatedResponse True oid True), shop\<lparr>orders := orders shop @ [(oid, ord)]\<rparr>)
      \<and> quantity (items ord ! 0) = - 3
      \<and> subtotal (items ord ! 0) = Finite (- 300)"
    by (intro exI [of _ oid] exI [of _ ord] conjI)
  with simulated_env_simps(1) priced_A_returned show ?thesis
    by simp
qed

subsection \<open>C10: the currency of the persisted order\<close>

text \<open>
  C10. Every order that simulated checkout persists has currency "inr", whatever the
  currencies of the products: a successful simulated checkout appends exactly one order, and
  its currency is the default of the schema, since line 129 passes none.
\<close>

theorem simulated_order_currency_is_inr:
  assumes "STRIPE_SECRET e = []"
    and "checkout e req w = (Inr r, w')"
  shows "\<exists>oid ord. r = SimulatedResponse True oid True
    \<and> w' = w\<lparr>orders := orders w @ [(oid, ord)]\<rparr>
    \<and> currency ord = ''inr''"
  using checkout_simulated_cases [OF assms(1), of req w] assms(2)
  by auto

text \<open>
  The hypotheses of C10 hold for the cart of two of product \<open>A\<close>, whose currency is "usd".
\<close>

theorem simulated_order_currency_is_inr_witness:
  "STRIPE_SECRET simulated_env = []
   \<and> prod_currency product_A = Some ''usd''
   \<and> resolves (products shop) line_A2 product_A 2
   \<and> (\<exists>oid ord.
        checkout simulated_env (request [line_A2]) shop =
          (Inr (SimulatedResponse True oid True), shop\<lparr>orders := orders shop @ [(oid, ord)]\<rparr>)
      \<and> currency ord = ''inr'')"
proof -
  have lines: "list_all2 (\<lambda>it (doc, q). priced (products shop) it doc q)
          (CheckoutRequest.items (request [line_A2])) [(product_A, 2)]"
    by (simp add: request_def priced_A2)
  have email: "EmailStr simulated_env (customer_email (request [line_A2])) = Some ''ann@example.org''"
    by (simp add: request_def simulated_env_simps)
  obtain r w' where run: "checkout simulated_env (request [line_A2]) shop = (Inr r, w')"
    using checkout_simulated_ok [OF simulated_env_simps(1) lines email] by blast
  from simulated_order_currency_is_inr [OF simulated_env_simps(1) run]
  obtain oid ord where "r = SimulatedResponse True oid True"
    "w' = shop\<lparr>orders := orders shop @ [(oid, ord)]\<rparr>" "currency ord = ''inr''"
    by blast
  with run have "\<exists>oid ord.
        checkout simulated_env (request [line_A2]) shop =
          (Inr (SimulatedResponse True oid True), shop\<lparr>orders := orders shop @ [(oid, ord)]\<rparr>)
      \<and> currency ord = ''inr''"
    by (intro exI [of _ oid] exI [of _ ord] conjI) simp_all
  moreover have "prod_currency product_A = Some ''usd''"
    by (simp add: product_A_def)
  ultimately show ?thesis
    using simulated_env_simps(1) resolves_A2 by (intro conjI)
qed

end
